theory Spec2Isabelle
  imports Complex_Main
begin

section \<open>Data model of \<open>server.js\<close>\<close>

text \<open>
  JavaScript numbers that the server only ever adds, subtracts and compares as whole
  numbers (caps, level, experience, health, reputation, millisecond timestamps) are
  modelled as \<open>int\<close>. A field that can be \<open>undefined\<close> is an \<open>option\<close>.
\<close>

type_synonym stats = "(string \<times> int) list"
  \<comment> \<open>the \<open>stats\<close> object, keys in declaration order; the flag \<open>energy: true\<close> is
      recorded as \<open>1\<close>, its value under JavaScript's numeric coercion\<close>

record item =
  item_id :: string
  item_name :: "string option"
  item_type :: "string option"
  item_rarity :: "string option"
  item_stats :: "stats option"
  item_source :: string
  item_ts :: int
  nftMint :: "string option"

record factionRep =
  brotherhood :: int
  raiders :: int
  vault :: int

record gear =
  head :: "item option"
  body :: "item option"
  weapon :: "item option"
  accessory :: "item option"

record cooldowns =
  claim :: int

record player =
  wallet :: "string option"
  caps :: int
  lvl :: int
  xp :: int
  hp :: int
  max_hp :: int
  lastClaim :: int
  factionRep :: factionRep
  inventory :: "item list"
  gear :: gear
  cooldowns :: cooldowns

type_synonym players = "string \<rightharpoonup> player"

subsection \<open>Objects used as dictionaries\<close>

text \<open>
  The player table, the location table and the recipe table are plain objects read as
  \<open>obj[key]\<close>. Such a read finds the object's own entries, kept here as a map, and
  behind them the properties every object inherits from \<open>Object.prototype\<close>: eleven
  functions and, under \<open>__proto__\<close>, the prototype object itself. All of them are
  truthy, and none has any of the fields the server reads, except that a function has a
  \<open>name\<close>.
\<close>

definition object_prototype_keys :: "string list" where
  "object_prototype_keys =
     [''constructor'', ''__defineGetter__'', ''__defineSetter__'', ''hasOwnProperty'',
      ''__lookupGetter__'', ''__lookupSetter__'', ''isPrototypeOf'', ''propertyIsEnumerable'',
      ''toString'', ''valueOf'', ''__proto__'', ''toLocaleString'']"

datatype 'a property = Own 'a | Inherited

definition get_property :: "(string \<rightharpoonup> 'a) \<Rightarrow> string \<Rightarrow> 'a property option" where
  "get_property obj k =
     (case obj k of
        Some v \<Rightarrow> Some (Own v)
      | None \<Rightarrow> if k \<in> set object_prototype_keys then Some Inherited else None)"

definition inherited_name :: "string \<Rightarrow> string option" where
  \<comment> \<open>the \<open>name\<close> of the inherited property under key \<open>k\<close>\<close>
  "inherited_name k =
     (if k = ''constructor'' then Some ''Object''
      else if k = ''__proto__'' then None
      else Some k)"

section \<open>Leveling: \<open>grantCapsAndXp\<close>\<close>

text \<open>
  The \<open>while\<close> loop of \<open>grantCapsAndXp\<close>. The threshold \<open>nextLvXp\<close> is a \<open>const\<close>
  computed before the loop and is an argument here; the loop state is the player and
  the flag \<open>leveledUp\<close>. A run that never leaves the loop is \<open>None\<close>.
\<close>

partial_function (option) level_loop :: "int \<Rightarrow> player \<Rightarrow> bool \<Rightarrow> (bool \<times> player) option" where
  "level_loop nextLvXp p leveledUp =
     (if xp p \<ge> nextLvXp
      then level_loop nextLvXp
             (p\<lparr>xp := xp p - nextLvXp, lvl := lvl p + 1,
                max_hp := max_hp p + 10, hp := max_hp p + 10\<rparr>) True
      else Some (leveledUp, p))"

definition grantCapsAndXp :: "player \<Rightarrow> int \<Rightarrow> int \<Rightarrow> (bool \<times> player) option" where
  "grantCapsAndXp p capsEarned xpEarned =
     (let p1 = p\<lparr>caps := caps p + capsEarned\<rparr>;
          p2 = p1\<lparr>xp := xp p1 + xpEarned\<rparr>;
          nextLvXp = lvl p2 * 100
      in level_loop nextLvXp p2 False)"

text \<open>One pass through the body of the loop, at threshold \<open>T\<close>.\<close>

definition level_up :: "int \<Rightarrow> player \<Rightarrow> player" where
  "level_up T p =
     p\<lparr>xp := xp p - T, lvl := lvl p + 1, max_hp := max_hp p + 10, hp := max_hp p + 10\<rparr>"

text \<open>
  The grant operation as the specification words it: the threshold is
  \<open>level \<times> 100\<close> of the current level, evaluated again at every iteration.
\<close>

partial_function (option) level_loop_spec :: "player \<Rightarrow> bool \<Rightarrow> (bool \<times> player) option" where
  "level_loop_spec p leveledUp =
     (if xp p \<ge> lvl p * 100
      then level_loop_spec
             (p\<lparr>xp := xp p - lvl p * 100, lvl := lvl p + 1,
                max_hp := max_hp p + 10, hp := max_hp p + 10\<rparr>) True
      else Some (leveledUp, p))"

definition grant_spec :: "player \<Rightarrow> int \<Rightarrow> int \<Rightarrow> (bool \<times> player) option" where
  "grant_spec p currencyDelta experienceDelta =
     level_loop_spec (p\<lparr>caps := caps p + currencyDelta, xp := xp p + experienceDelta\<rparr>) False"

text \<open>The record \<open>ensurePlayer\<close> creates for a wallet it has not seen.\<close>

definition new_player :: "string option \<Rightarrow> player" where
  "new_player w =
     \<lparr>wallet = w, caps = 0, lvl = 1, xp = 0, hp = 100, max_hp = 100, lastClaim = 0,
      factionRep = \<lparr>brotherhood = 0, raiders = 0, vault = 0\<rparr>,
      inventory = [],
      gear = \<lparr>head = None, body = None, weapon = None, accessory = None\<rparr>,
      cooldowns = \<lparr>claim = 0\<rparr>\<rparr>"

section \<open>Equipment: \<open>equipItem\<close>\<close>

datatype error =
    ItemNotFound                 \<comment> \<open>\<open>Item not found\<close>\<close>
  | NotEquippable                \<comment> \<open>\<open>Item is not equippable\<close>\<close>
  | UnknownRecipe                \<comment> \<open>\<open>Unknown recipe\<close>\<close>
  | Missing string nat           \<comment> \<open>\<open>Missing ${matId} x${needed[matId] - have}\<close>\<close>
  | TypeError                    \<comment> \<open>a method call on \<open>undefined\<close>\<close>
  | InvalidFaction               \<comment> \<open>\<open>Invalid faction\<close>\<close>
  | MissingFields                \<comment> \<open>\<open>Missing wallet or locationId\<close> (or \<open>itemId\<close>, \<open>recipeId\<close>)\<close>
  | UnknownLocation              \<comment> \<open>\<open>Unknown location\<close>\<close>
  | CooldownActive int           \<comment> \<open>\<open>Cooldown active\<close>, with \<open>remainingMs\<close>\<close>
  | OutOfRange int real          \<comment> \<open>\<open>Out of range\<close>, with \<open>distanceM\<close> and \<open>allowedM\<close>\<close>

datatype slot = SlotHead | SlotBody | SlotWeapon | SlotAccessory

definition slot_of :: "string option \<Rightarrow> slot option" where
  "slot_of t =
     (if t = Some ''head'' then Some SlotHead
      else if t = Some ''body'' then Some SlotBody
      else if t = Some ''weapon'' then Some SlotWeapon
      else if t = Some ''accessory'' then Some SlotAccessory
      else None)"

fun set_slot :: "slot \<Rightarrow> item \<Rightarrow> gear \<Rightarrow> gear" where
  "set_slot SlotHead it g = g\<lparr>head := Some it\<rparr>"
| "set_slot SlotBody it g = g\<lparr>body := Some it\<rparr>"
| "set_slot SlotWeapon it g = g\<lparr>weapon := Some it\<rparr>"
| "set_slot SlotAccessory it g = g\<lparr>accessory := Some it\<rparr>"

fun get_slot :: "slot \<Rightarrow> gear \<Rightarrow> item option" where
  "get_slot SlotHead g = head g"
| "get_slot SlotBody g = body g"
| "get_slot SlotWeapon g = weapon g"
| "get_slot SlotAccessory g = accessory g"

text \<open>
  \<open>item.stats?.defense\<close> as a condition: the stat is present and not zero.
\<close>

definition defense_of :: "item \<Rightarrow> int option" where
  "defense_of it =
     (case item_stats it of None \<Rightarrow> None | Some st \<Rightarrow> map_of st ''defense'')"

definition truthy_num :: "int option \<Rightarrow> bool" where
  "truthy_num v = (case v of None \<Rightarrow> False | Some d \<Rightarrow> d \<noteq> 0)"

definition equipItem :: "player \<Rightarrow> string \<Rightarrow> (error + slot \<times> item) \<times> player" where
  "equipItem p itemId =
     (case find (\<lambda>i. item_id i = itemId) (inventory p) of
        None \<Rightarrow> (Inl ItemNotFound, p)
      | Some it \<Rightarrow>
          (case slot_of (item_type it) of
             None \<Rightarrow> (Inl NotEquippable, p)
           | Some sl \<Rightarrow>
               let p1 = p\<lparr>gear := set_slot sl it (gear p)\<rparr>;
                   p2 = (if truthy_num (defense_of it)
                         then let p' = p1\<lparr>max_hp := 100 + (case defense_of it of Some d \<Rightarrow> d | None \<Rightarrow> 0)\<rparr>
                              in p'\<lparr>hp := min (hp p') (max_hp p')\<rparr>
                         else p1)
               in (Inr (sl, it), p2)))"

section \<open>Crafting: \<open>craftItem\<close>\<close>

record recipe =
  recipe_name :: string
  recipe_type :: string
  recipe_rarity :: string
  requires :: "(string \<times> nat) list"
    \<comment> \<open>the \<open>requires\<close> object; \<open>Object.keys\<close> lists its keys in this order\<close>
  recipe_stats :: stats

definition recipes :: "string \<rightharpoonup> recipe" where
  "recipes =
     [''scav_helmet'' \<mapsto>
        \<lparr>recipe_name = ''Scavenger Helmet'', recipe_type = ''head'', recipe_rarity = ''uncommon'',
         requires = [(''scrap_metal'', 3), (''duct_tape'', 1)],
         recipe_stats = [(''defense'', 5)]\<rparr>,
      ''makeshift_rifle'' \<mapsto>
        \<lparr>recipe_name = ''Makeshift Rifle'', recipe_type = ''weapon'', recipe_rarity = ''uncommon'',
         requires = [(''scrap_metal'', 2), (''rare_tech'', 1)],
         recipe_stats = [(''attack'', 12)]\<rparr>]"

type_synonym bag = "string \<rightharpoonup> nat list"

text \<open>
  \<open>player.inventory.forEach((it, idx) => ...)\<close>: every item's index is pushed onto the
  list kept under the item's identifier.
\<close>

fun bag_loop :: "bag \<Rightarrow> nat \<Rightarrow> item list \<Rightarrow> bag" where
  "bag_loop bag idx [] = bag"
| "bag_loop bag idx (it # its) =
     bag_loop (bag(item_id it \<mapsto> (case bag (item_id it) of None \<Rightarrow> [] | Some l \<Rightarrow> l) @ [idx]))
       (Suc idx) its"

definition have_count :: "bag \<Rightarrow> string \<Rightarrow> nat" where
  \<comment> \<open>\<open>bag[matId]?.length || 0\<close>\<close>
  "have_count bag matId = (case bag matId of None \<Rightarrow> 0 | Some l \<Rightarrow> length l)"

fun check_materials :: "bag \<Rightarrow> (string \<times> nat) list \<Rightarrow> error option" where
  "check_materials bag [] = None"
| "check_materials bag ((matId, n) # rest) =
     (if have_count bag matId < n then Some (Missing matId (n - have_count bag matId))
      else check_materials bag rest)"

definition pop :: "nat list \<Rightarrow> nat option \<times> nat list" where
  \<comment> \<open>\<open>Array.prototype.pop\<close>: \<open>undefined\<close> on an empty array\<close>
  "pop xs = (if xs = [] then (None, []) else (Some (last xs), butlast xs))"

definition splice1 :: "nat option \<Rightarrow> 'a list \<Rightarrow> 'a list" where
  \<comment> \<open>\<open>splice(idx, 1)\<close>: removes the element at \<open>idx\<close> and moves the later ones down by
      one; nothing is removed when \<open>idx\<close> is past the end; \<open>undefined\<close> counts as \<open>0\<close>\<close>
  "splice1 idx xs =
     (let i = (case idx of None \<Rightarrow> 0 | Some i \<Rightarrow> i)
      in if i < length xs then take i xs @ drop (Suc i) xs else xs)"

text \<open>
  The inner loop \<open>for (let i = 0; i < needed[matId]; i++)\<close>, counted down. \<open>Inl\<close>
  carries the inventory as it stands when \<open>bag[matId]\<close> is \<open>undefined\<close> and the call
  of \<open>pop\<close> throws.
\<close>

fun consume_mat :: "string \<Rightarrow> nat \<Rightarrow> bag \<times> item list \<Rightarrow> item list + bag \<times> item list" where
  "consume_mat matId 0 s = Inr s"
| "consume_mat matId (Suc n) (bag, items) =
     (case bag matId of
        None \<Rightarrow> Inl items
      | Some idxs \<Rightarrow>
          (case pop idxs of
             (idx, idxs') \<Rightarrow> consume_mat matId n (bag(matId \<mapsto> idxs'), splice1 idx items)))"

fun consume_all :: "(string \<times> nat) list \<Rightarrow> bag \<times> item list \<Rightarrow> item list + bag \<times> item list" where
  "consume_all [] s = Inr s"
| "consume_all ((matId, n) # rest) s =
     (case consume_mat matId n s of
        Inl items \<Rightarrow> Inl items
      | Inr s' \<Rightarrow> consume_all rest s')"

text \<open>Decimal rendering of a number inside a template literal.\<close>

fun digits_of :: "nat \<Rightarrow> string" where
  "digits_of n =
     (if n < 10 then [''0123456789'' ! n]
      else digits_of (n div 10) @ [''0123456789'' ! (n mod 10)])"

declare digits_of.simps [simp del]

definition show_int :: "int \<Rightarrow> string" where
  "show_int i = (if i < 0 then ''-'' @ digits_of (nat (- i)) else digits_of (nat i))"

text \<open>
  \<open>craftItem\<close> reads the clock twice, for the identifier and for \<open>ts\<close>; the two readings
  are the arguments \<open>now_id\<close> and \<open>now_ts\<close>.
\<close>

definition craftItem :: "player \<Rightarrow> string \<Rightarrow> int \<Rightarrow> int \<Rightarrow> (error + item) \<times> player" where
  "craftItem p recipeId now_id now_ts =
     (case get_property recipes recipeId of
        None \<Rightarrow> (Inl UnknownRecipe, p)
      | Some Inherited \<Rightarrow>
          \<comment> \<open>\<open>recipe.requires\<close> is \<open>undefined\<close>: nothing is needed, nothing consumed, and
              the item takes \<open>undefined\<close> for category, rarity and stats\<close>
          let crafted =
                \<lparr>item_id = recipeId @ ''_'' @ show_int now_id,
                 item_name = inherited_name recipeId,
                 item_type = None,
                 item_rarity = None,
                 item_stats = None,
                 item_source = ''crafting'',
                 item_ts = now_ts,
                 nftMint = None\<rparr>
          in (Inr crafted, p\<lparr>inventory := inventory p @ [crafted]\<rparr>)
      | Some (Own recipe) \<Rightarrow>
          let needed = requires recipe;
              bag = bag_loop Map.empty 0 (inventory p)
          in (case check_materials bag needed of
                Some e \<Rightarrow> (Inl e, p)
              | None \<Rightarrow>
                  (case consume_all needed (bag, inventory p) of
                     Inl items \<Rightarrow> (Inl TypeError, p\<lparr>inventory := items\<rparr>)
                   | Inr (bag', items) \<Rightarrow>
                       let crafted =
                             \<lparr>item_id = recipeId @ ''_'' @ show_int now_id,
                              item_name = Some (recipe_name recipe),
                              item_type = Some (recipe_type recipe),
                              item_rarity = Some (recipe_rarity recipe),
                              item_stats = Some (recipe_stats recipe),
                              item_source = ''crafting'',
                              item_ts = now_ts,
                              nftMint = None\<rparr>
                       in (Inr crafted, p\<lparr>inventory := items @ [crafted]\<rparr>))))"

text \<open>How many items of an inventory carry a given identifier.\<close>

definition count_id :: "item list \<Rightarrow> string \<Rightarrow> nat" where
  "count_id items matId = length (filter (\<lambda>it. item_id it = matId) items)"

section \<open>Double arithmetic\<close>

text \<open>
  The numbers of the loot roll and of the encounter roll are IEEE 754 doubles, here the
  reals that are doubles. A decimal literal denotes the double nearest to it, and the
  product, sum or difference of two doubles is the double nearest to the exact result,
  ties going to the even significand: \<open>fl\<close> is that rounding. A double of magnitude at
  least \<open>2 powi (-1022)\<close> has 53 significant bits; a smaller one is a multiple of
  \<open>2 powi (-1074)\<close>. Results beyond the largest double, which the program turns into
  an infinity, and the sign of zero are not modelled.
\<close>

definition round_half_even :: "real \<Rightarrow> int" where
  "round_half_even q =
     (let f = \<lfloor>q\<rfloor>; d = q - of_int f
      in if d < 1 / 2 then f else if 1 / 2 < d then f + 1 else if even f then f else f + 1)"

text \<open>The exponent of the power of two at or below the magnitude, not below \<open>-1022\<close>.\<close>

definition binade :: "real \<Rightarrow> int" where
  "binade x = max \<lfloor>log 2 \<bar>x\<bar>\<rfloor> (- 1022)"

definition fl :: "real \<Rightarrow> real" where
  "fl x =
     (if x = 0 then 0
      else let u = 2 powi (binade x - 52)
           in sgn x * of_int (round_half_even (\<bar>x\<bar> / u)) * u)"

section \<open>Loot: \<open>rollLoot\<close>\<close>

record entry =
  entry_id :: string
  entry_name :: string
  entry_type :: string
  weight :: real
  entry_rarity :: string
  entry_stats :: stats

definition repBonus :: "player \<Rightarrow> real" where
  \<comment> \<open>\<open>Math.min(0.20, (player?.factionRep?.brotherhood || 0) * 0.002)\<close>\<close>
  "repBonus p = min (fl 0.2) (fl (real_of_int (brotherhood (factionRep p)) * fl 0.002))"

definition adjust :: "real \<Rightarrow> entry \<Rightarrow> entry" where
  "adjust rb e =
     (let bonus = (if entry_rarity e = ''rare'' \<or> entry_rarity e = ''legendary'' then rb else 0)
      in e\<lparr>weight := fl (weight e * fl (1 + bonus))\<rparr>)"

text \<open>The loop \<open>for (const e of adjusted) if ((r -= e.weight) <= 0) return e\<close>.\<close>

fun pick :: "real \<Rightarrow> entry list \<Rightarrow> entry option" where
  "pick r [] = None"
| "pick r (e # es) = (let r' = fl (r - weight e) in if r' \<le> 0 then Some e else pick r' es)"

text \<open>The argument \<open>rnd\<close> is the value of \<open>Math.random()\<close>, a double in \<open>[0, 1)\<close>.\<close>

definition rollLoot :: "entry list \<Rightarrow> player \<Rightarrow> real \<Rightarrow> entry option" where
  "rollLoot lootTable p rnd =
     (let adjusted = map (adjust (repBonus p)) lootTable;
          total = foldl (\<lambda>sum e. fl (sum + weight e)) 0 adjusted;
          r = fl (rnd * total)
      in pick r adjusted)"

text \<open>
  The value of \<open>r\<close> after the first \<open>k\<close> entries of the walk that starts at \<open>r\<close>,
  and the value of \<open>total\<close> for a list of adjusted entries.
\<close>

definition remainder :: "real \<Rightarrow> entry list \<Rightarrow> nat \<Rightarrow> real" where
  "remainder r es k = foldl (\<lambda>r e. fl (r - weight e)) r (take k es)"

definition total_weight :: "entry list \<Rightarrow> real" where
  "total_weight es = foldl (\<lambda>sum e. fl (sum + weight e)) 0 es"

section \<open>Encounters and distance\<close>

definition rollEncounter :: "player \<Rightarrow> real \<Rightarrow> string option \<times> player" where
  "rollEncounter p roll =
     (if roll < fl 0.18 then
        (Some ''Raider ambush! Lost 12 HP.'',
         p\<lparr>hp := max 0 (hp p - 12),
           factionRep := (factionRep p)\<lparr>raiders := raiders (factionRep p) + 4\<rparr>\<rparr>)
      else if roll < fl 0.28 then
        (Some ''Brotherhood patrol! Gained 6 reputation.'',
         p\<lparr>factionRep := (factionRep p)\<lparr>brotherhood := brotherhood (factionRep p) + 6\<rparr>\<rparr>)
      else if roll < fl 0.34 then
        (Some ''Vault Dweller aid! Restored 12 HP.'',
         p\<lparr>hp := min (max_hp p) (hp p + 12),
           factionRep := (factionRep p)\<lparr>vault := vault (factionRep p) + 5\<rparr>\<rparr>)
      else (None, p))"

text \<open>
  The distance is the exact value of the haversine formula; the program computes a
  double close to it with the library's sine, cosine, arcsine and square root.
\<close>

definition toRad :: "real \<Rightarrow> real" where
  "toRad d = d * pi / 180"

definition distanceM :: "real \<Rightarrow> real \<Rightarrow> real \<Rightarrow> real \<Rightarrow> real" where
  "distanceM lat1 lon1 lat2 lon2 =
     (let R = 6371000;
          dLat = toRad (lat2 - lat1);
          dLon = toRad (lon2 - lon1);
          a = (sin (dLat / 2))\<^sup>2 + cos (toRad lat1) * cos (toRad lat2) * (sin (dLon / 2))\<^sup>2
      in 2 * R * arcsin (sqrt a))"

section \<open>Configuration, locations and the player table\<close>

record config =
  SIMULATE_MINT :: bool
  COOLDOWN_MS :: int
  DEFAULT_RADIUS :: real

record location =
  loc_id :: string
  loc_name :: string
  loc_lat :: real
  loc_lng :: real
  radiusM :: real
  lootTable :: "entry list"

definition nukaTown :: "config \<Rightarrow> location" where
  "nukaTown cfg =
     \<lparr>loc_id = ''nukaTown'', loc_name = ''NukaTown'', loc_lat = 36.025, loc_lng = - 115.037,
      radiusM = DEFAULT_RADIUS cfg,
      lootTable =
        [\<lparr>entry_id = ''scrap_metal'', entry_name = ''Scrap Metal'', entry_type = ''material'',
          weight = 50, entry_rarity = ''common'', entry_stats = [(''value'', 1)]\<rparr>,
         \<lparr>entry_id = ''ammo_pack'', entry_name = ''Ammo Pack'', entry_type = ''consumable'',
          weight = 30, entry_rarity = ''uncommon'', entry_stats = [(''ammo'', 20)]\<rparr>,
         \<lparr>entry_id = ''rare_tech'', entry_name = ''Rare Tech'', entry_type = ''material'',
          weight = 15, entry_rarity = ''rare'', entry_stats = [(''intel'', 5)]\<rparr>,
         \<lparr>entry_id = ''legendary_relic'', entry_name = ''Legendary Relic'', entry_type = ''artifact'',
          weight = 5, entry_rarity = ''legendary'', entry_stats = [(''charisma'', 10)]\<rparr>]\<rparr>"

definition vault13 :: location where
  "vault13 =
     \<lparr>loc_id = ''vault13'', loc_name = ''Vault 13'', loc_lat = 36.03, loc_lng = - 115.02,
      radiusM = 100,
      lootTable =
        [\<lparr>entry_id = ''duct_tape'', entry_name = ''Duct Tape'', entry_type = ''material'',
          weight = 40, entry_rarity = ''common'', entry_stats = [(''value'', 1)]\<rparr>,
         \<lparr>entry_id = ''med_x'', entry_name = ''Med-X'', entry_type = ''consumable'',
          weight = 25, entry_rarity = ''uncommon'', entry_stats = [(''heal'', 15)]\<rparr>,
         \<lparr>entry_id = ''laser_rifle'', entry_name = ''Laser Rifle'', entry_type = ''weapon'',
          weight = 20, entry_rarity = ''rare'', entry_stats = [(''attack'', 25), (''energy'', 1)]\<rparr>,
         \<lparr>entry_id = ''t45_power_armor'', entry_name = ''T-45 Power Armor'', entry_type = ''body'',
          weight = 15, entry_rarity = ''legendary'',
          entry_stats = [(''defense'', 30), (''carry'', 10)]\<rparr>]\<rparr>"

definition locations :: "config \<Rightarrow> string \<rightharpoonup> location" where
  "locations cfg = [''nukaTown'' \<mapsto> nukaTown cfg, ''vault13'' \<mapsto> vault13]"

text \<open>
  A field of a request body or a route parameter is a string or absent (\<open>None\<close>, the
  value \<open>undefined\<close>). As a key of the player table \<open>undefined\<close> is the string
  \<open>undefined\<close>.
\<close>

definition key_of :: "string option \<Rightarrow> string" where
  "key_of w = (case w of None \<Rightarrow> ''undefined'' | Some k \<Rightarrow> k)"

text \<open>
  \<open>ensurePlayer\<close> tests \<open>!players[wallet]\<close> and returns \<open>players[wallet]\<close>: for a key
  that names an inherited property the test finds that property, no record is created
  and the inherited value is what the caller gets.
\<close>

definition ensurePlayer :: "string option \<Rightarrow> players \<Rightarrow> player property \<times> players" where
  "ensurePlayer w players =
     (case get_property players (key_of w) of
        None \<Rightarrow> (Own (new_player w), players(key_of w \<mapsto> new_player w))
      | Some v \<Rightarrow> (v, players))"

section \<open>Endpoints\<close>








definition falsy :: "string option \<Rightarrow> bool" where
  \<comment> \<open>\<open>!x\<close> for a field that is a string or absent\<close>
  "falsy x = (case x of None \<Rightarrow> True | Some s \<Rightarrow> s = [])"

definition post_equip ::
  "players \<Rightarrow> string option \<Rightarrow> string option \<Rightarrow> (error + slot \<times> item) \<times> players" where
  "post_equip players w itemId =
     (if falsy w \<or> falsy itemId then (Inl MissingFields, players)
      else case ensurePlayer w players of
        (Inherited, players') \<Rightarrow> (Inl TypeError, players')
      | (Own p, players') \<Rightarrow>
          (case equipItem p (key_of itemId) of
             (res, p') \<Rightarrow> (res, players'(key_of w \<mapsto> p'))))"

text \<open>
  \<open>craftItem\<close> looks the recipe up before it touches the player, so an unknown recipe
  is reported for an inherited value too.
\<close>

definition post_craft ::
  "players \<Rightarrow> string option \<Rightarrow> string option \<Rightarrow> int \<Rightarrow> int \<Rightarrow> (error + item) \<times> players" where
  "post_craft players w recipeId now_id now_ts =
     (if falsy w \<or> falsy recipeId then (Inl MissingFields, players)
      else case ensurePlayer w players of
        (Inherited, players') \<Rightarrow>
          (case get_property recipes (key_of recipeId) of
             None \<Rightarrow> (Inl UnknownRecipe, players')
           | Some r \<Rightarrow> (Inl TypeError, players'))
      | (Own p, players') \<Rightarrow>
          (case craftItem p (key_of recipeId) now_id now_ts of
             (res, p') \<Rightarrow> (res, players'(key_of w \<mapsto> p'))))"

section \<open>Settlement collaborators\<close>

text \<open>
  What the remote mint does is not in the program: \<open>mint_outcome\<close> is the result of the
  body of the \<open>try\<close> block of \<open>maybeMintCapsOnChain\<close>, either the signature it returned
  or the text of the exception it threw.
\<close>

datatype mint_outcome = MintReturns string | MintThrows string

datatype chain_result =
    ChainTx string "string option"   \<comment> \<open>\<open>{ tx, explorer }\<close>\<close>
  | ChainError string string         \<comment> \<open>\<open>{ error, detail }\<close>\<close>

definition maybeMintCapsOnChain :: "config \<Rightarrow> mint_outcome \<Rightarrow> chain_result" where
  "maybeMintCapsOnChain cfg ext =
     (if SIMULATE_MINT cfg then ChainTx ''SIMULATED_TX'' None
      else case ext of
        MintReturns sig \<Rightarrow>
          ChainTx sig (Some (''https://solscan.io/tx/'' @ sig @ ''?cluster=devnet''))
      | MintThrows e \<Rightarrow> ChainError ''Mint failed'' e)"

record nft =
  nft_mint :: string
  nft_name :: string
  nft_rarity :: string

definition maybeMintNftForLoot :: "config \<Rightarrow> entry option \<Rightarrow> nft option" where
  "maybeMintNftForLoot cfg loot =
     (case loot of
        None \<Rightarrow> None
      | Some l \<Rightarrow>
          if entry_rarity l \<noteq> ''rare'' \<and> entry_rarity l \<noteq> ''legendary'' then None
          else if SIMULATE_MINT cfg
          then Some \<lparr>nft_mint = ''SIMULATED_NFT'', nft_name = entry_name l,
                     nft_rarity = entry_rarity l\<rparr>
          else None)"

section \<open>The claim: \<open>POST /claim-survival\<close>\<close>

record claim_request =
  req_wallet :: "string option"
  req_locationId :: "string option"
  req_lat :: "real option"
  req_lng :: "real option"
  req_eventName :: "string option"

record player_summary =
  sum_wallet :: "string option"
  sum_caps :: int
  sum_lvl :: int
  sum_xp :: int
  sum_hp :: int
  sum_max_hp :: int
  sum_factionRep :: factionRep
  inventoryCount :: nat
  sum_gear :: gear

record claim_response =
  resp_location :: string
  resp_loot :: "item option"
  resp_encounter :: "string option"
  capsEarned :: int
  leveledUp :: bool
  resp_player :: player_summary
  chain :: "chain_result option"
  cooldownEndsAt :: int

definition summary :: "player \<Rightarrow> player_summary" where
  "summary p =
     \<lparr>sum_wallet = wallet p, sum_caps = caps p, sum_lvl = lvl p, sum_xp = xp p,
      sum_hp = hp p, sum_max_hp = max_hp p, sum_factionRep = factionRep p,
      inventoryCount = length (inventory p), sum_gear = gear p\<rparr>"

text \<open>The cooldown test; \<open>Some\<close> is the remaining time of the \<open>429\<close> answer.\<close>

definition cooldown_check :: "config \<Rightarrow> player \<Rightarrow> int \<Rightarrow> int option" where
  "cooldown_check cfg p now =
     (let last = claim (cooldowns p)
      in if now - last < COOLDOWN_MS cfg then Some (COOLDOWN_MS cfg - (now - last)) else None)"

text \<open>
  The proximity test; \<open>Some\<close> is the \<open>403\<close> answer. \<open>loc.radiusM || DEFAULT_RADIUS\<close>
  falls back to the default when the radius is zero. \<open>Math.round\<close> rounds half up.
\<close>

definition geofence_check :: "config \<Rightarrow> location \<Rightarrow> real option \<Rightarrow> real option \<Rightarrow> error option" where
  "geofence_check cfg loc lat lng =
     (case (lat, lng) of
        (Some plat, Some plng) \<Rightarrow>
          let dist = distanceM plat plng (loc_lat loc) (loc_lng loc)
          in if dist > (if radiusM loc = 0 then DEFAULT_RADIUS cfg else radiusM loc)
             then Some (OutOfRange \<lfloor>dist + 1 / 2\<rfloor> (radiusM loc))
             else None
      | _ \<Rightarrow> None)"

definition rarityBonus :: "entry option \<Rightarrow> int" where
  "rarityBonus loot =
     (case loot of
        None \<Rightarrow> 0
      | Some l \<Rightarrow> if entry_rarity l = ''legendary'' then 60
                  else if entry_rarity l = ''rare'' then 24 else 0)"

text \<open>
  Everything the handler does to the player between the two checks and the settlement:
  the cooldown commit, the loot roll, the encounter, the event's health risk and the
  grant. The result is the mutated player with the fields of the answer that are known
  at that point; \<open>None\<close> is a grant that never returns.
\<close>

definition resolve_rewards ::
  "config \<Rightarrow> location \<Rightarrow> claim_request \<Rightarrow> player \<Rightarrow> int \<Rightarrow> real \<Rightarrow> real
     \<Rightarrow> (player \<times> item option \<times> string option \<times> int \<times> bool) option" where
  "resolve_rewards cfg loc req player now rnd_loot rnd_enc =
     (let capsMod = (if req_eventName req = Some ''Brotherhood Patrol''
                        \<and> req_locationId req = Some ''vault13'' then 20 else 0);
          hpRisk = (if req_eventName req = Some ''Raider Skirmish''
                       \<and> req_locationId req = Some ''nukaTown'' then 10 else (0::int));
          p1 = player\<lparr>cooldowns := (cooldowns player)\<lparr>claim := now\<rparr>\<rparr>;
          loot = rollLoot (lootTable loc) p1 rnd_loot;
          lootItem =
            (case loot of
               None \<Rightarrow> None
             | Some l \<Rightarrow>
                 Some \<lparr>item_id = entry_id l, item_name = Some (entry_name l),
                       item_type = Some (entry_type l), item_rarity = Some (entry_rarity l),
                       item_stats = Some (entry_stats l),
                       item_source = loc_name loc, item_ts = now,
                       nftMint = map_option nft_mint (maybeMintNftForLoot cfg loot)\<rparr>);
          p2 = (case lootItem of
                  None \<Rightarrow> p1
                | Some li \<Rightarrow> p1\<lparr>inventory := inventory p1 @ [li]\<rparr>);
          (encounter, p3) = rollEncounter p2 rnd_enc;
          p4 = (if hpRisk > 0 then p3\<lparr>hp := max 0 (hp p3 - hpRisk)\<rparr> else p3);
          earned = 12 + rarityBonus loot + capsMod
      in case grantCapsAndXp p4 earned 18 of
           None \<Rightarrow> None
         | Some (lv, p5) \<Rightarrow> Some (p5, lootItem, encounter, earned, lv))"

text \<open>
  The handler. Its arguments beyond the request are what it reads from outside: the
  clock (\<open>now\<close>), the two random draws and the outcome of the remote mint. An inherited
  value in place of the player makes the read of \<open>player.cooldowns.claim\<close> throw. An
  inherited value in place of the location has no coordinate (the distance is \<open>NaN\<close>,
  which is not greater than any radius) and no loot table: the handler sets the
  last-claim timestamp and then throws in \<open>rollLoot\<close>.
\<close>

definition claim_survival ::
  "config \<Rightarrow> players \<Rightarrow> claim_request \<Rightarrow> int \<Rightarrow> real \<Rightarrow> real \<Rightarrow> mint_outcome
     \<Rightarrow> ((error + claim_response) \<times> players) option" where
  "claim_survival cfg players req now rnd_loot rnd_enc ext =
     (if falsy (req_wallet req) \<or> falsy (req_locationId req)
      then Some (Inl MissingFields, players)
      else case get_property (locations cfg) (key_of (req_locationId req)) of
        None \<Rightarrow> Some (Inl UnknownLocation, players)
      | Some found \<Rightarrow>
          (case ensurePlayer (req_wallet req) players of
             (Inherited, players1) \<Rightarrow> Some (Inl TypeError, players1)
           | (Own player, players1) \<Rightarrow>
               (case cooldown_check cfg player now of
                  Some remaining \<Rightarrow> Some (Inl (CooldownActive remaining), players1)
                | None \<Rightarrow>
                    (case found of
                       Inherited \<Rightarrow>
                         Some (Inl TypeError,
                               players1(key_of (req_wallet req) \<mapsto>
                                 player\<lparr>cooldowns := (cooldowns player)\<lparr>claim := now\<rparr>\<rparr>))
                     | Own loc \<Rightarrow>
                         (case geofence_check cfg loc (req_lat req) (req_lng req) of
                            Some e \<Rightarrow> Some (Inl e, players1)
                          | None \<Rightarrow>
                              (case resolve_rewards cfg loc req player now rnd_loot rnd_enc of
                                 None \<Rightarrow> None
                               | Some (p5, lootItem, encounter, earned, lv) \<Rightarrow>
                                   let chain_res =
                                         (if \<not> SIMULATE_MINT cfg
                                          then Some (maybeMintCapsOnChain cfg ext) else None)
                                   in Some
                                        (Inr \<lparr>resp_location = loc_name loc,
                                              resp_loot = lootItem,
                                              resp_encounter = encounter,
                                              capsEarned = earned,
                                              leveledUp = lv,
                                              resp_player = summary p5,
                                              chain = chain_res,
                                              cooldownEndsAt =
                                                claim (cooldowns p5) + COOLDOWN_MS cfg\<rparr>,
                                         players1(key_of (req_wallet req) \<mapsto> p5))))))))"

section \<open>Items as claims produce them\<close>

text \<open>
  Inventory items as a claim builds them from entries of the two loot tables, at time
  \<open>t\<close> and with the mint not simulated.
\<close>

definition scrap_metal_item :: "int \<Rightarrow> item" where
  "scrap_metal_item t =
     \<lparr>item_id = ''scrap_metal'', item_name = Some ''Scrap Metal'', item_type = Some ''material'',
      item_rarity = Some ''common'', item_stats = Some [(''value'', 1)], item_source = ''NukaTown'',
      item_ts = t, nftMint = None\<rparr>"

definition duct_tape_item :: "int \<Rightarrow> item" where
  "duct_tape_item t =
     \<lparr>item_id = ''duct_tape'', item_name = Some ''Duct Tape'', item_type = Some ''material'',
      item_rarity = Some ''common'', item_stats = Some [(''value'', 1)], item_source = ''Vault 13'',
      item_ts = t, nftMint = None\<rparr>"

definition power_armor_item :: "int \<Rightarrow> item" where
  "power_armor_item t =
     \<lparr>item_id = ''t45_power_armor'', item_name = Some ''T-45 Power Armor'', item_type = Some ''body'',
      item_rarity = Some ''legendary'', item_stats = Some [(''defense'', 30), (''carry'', 10)],
      item_source = ''Vault 13'', item_ts = t, nftMint = None\<rparr>"

text \<open>An item whose defense stat is present and zero.\<close>

definition padded_vest :: item where
  "padded_vest =
     \<lparr>item_id = ''padded_vest'', item_name = Some ''Padded Vest'', item_type = Some ''body'',
      item_rarity = Some ''common'', item_stats = Some [(''defense'', 0)],
      item_source = ''Vault 13'', item_ts = 1, nftMint = None\<rparr>"

definition laser_rifle_item :: "int \<Rightarrow> item" where
  "laser_rifle_item t =
     \<lparr>item_id = ''laser_rifle'', item_name = Some ''Laser Rifle'', item_type = Some ''weapon'',
      item_rarity = Some ''rare'', item_stats = Some [(''attack'', 25), (''energy'', 1)],
      item_source = ''Vault 13'', item_ts = t, nftMint = None\<rparr>"

text \<open>A level-3 player: two level-ups have raised maximum health to 120.\<close>

definition veteran :: player where
  "veteran =
     (new_player (Some ''w''))\<lparr>lvl := 3, max_hp := 120, hp := 120,
        inventory := [scrap_metal_item 1, power_armor_item 2, laser_rifle_item 3, padded_vest]\<rparr>"

section \<open>Sample configuration, requests and players\<close>

text \<open>The configuration the server runs with when no environment variable is set.\<close>

definition default_config :: config where
  "default_config = \<lparr>SIMULATE_MINT = False, COOLDOWN_MS = 3600000, DEFAULT_RADIUS = 150\<rparr>"

definition claim_at_vault13 :: claim_request where
  "claim_at_vault13 =
     \<lparr>req_wallet = Some ''w'', req_locationId = Some ''vault13'', req_lat = None, req_lng = None,
      req_eventName = Some ''Brotherhood Patrol''\<rparr>"

text \<open>A player whose last claim was at time 1700000000000.\<close>

definition recent_claimer :: player where
  "recent_claimer = (new_player (Some ''w''))\<lparr>cooldowns := \<lparr>claim = 1700000000000\<rparr>\<rparr>"



section \<open>Properties of leveling\<close>

lemma level_loop_stop:
  "xp p < T \<Longrightarrow> level_loop T p b = Some (b, p)"
  by (subst level_loop.simps) simp

lemma level_loop_step:
  "T \<le> xp p \<Longrightarrow>
   level_loop T p b =
     level_loop T (p\<lparr>xp := xp p - T, lvl := lvl p + 1,
                     max_hp := max_hp p + 10, hp := max_hp p + 10\<rparr>) True"
  by (subst level_loop.simps) simp

lemma level_loop_spec_stop:
  "xp p < lvl p * 100 \<Longrightarrow> level_loop_spec p b = Some (b, p)"
  by (subst level_loop_spec.simps) simp

lemma level_loop_spec_step:
  "lvl p * 100 \<le> xp p \<Longrightarrow>
   level_loop_spec p b =
     level_loop_spec (p\<lparr>xp := xp p - lvl p * 100, lvl := lvl p + 1,
                       max_hp := max_hp p + 10, hp := max_hp p + 10\<rparr>) True"
  by (subst level_loop_spec.simps) simp

text \<open>
  With a positive threshold the loop returns: the experience left is a natural number
  that every iteration makes smaller. It leaves below the threshold and touches only
  experience, level and the two health fields.
\<close>

lemma level_loop_returns:
  assumes "0 < T"
  shows "\<exists>b' p'. level_loop T p b = Some (b', p') \<and> xp p' < T
           \<and> caps p' = caps p \<and> wallet p' = wallet p \<and> lastClaim p' = lastClaim p
           \<and> factionRep p' = factionRep p \<and> inventory p' = inventory p
           \<and> gear p' = gear p \<and> cooldowns p' = cooldowns p"
proof (induction "nat (xp p)" arbitrary: p b rule: less_induct)
  case less
  show ?case
  proof (cases "xp p < T")
    case True
    then show ?thesis by (simp add: level_loop_stop)
  next
    case False
    let ?q = "p\<lparr>xp := xp p - T, lvl := lvl p + 1, max_hp := max_hp p + 10, hp := max_hp p + 10\<rparr>"
    from False assms have "nat (xp ?q) < nat (xp p)" by simp
    from less [OF this, of True] False show ?thesis
      by (simp add: level_loop_step)
  qed
qed

text \<open>
  Where the experience after the grant stays below twice the threshold of the level at
  entry, so that at most one level-up happens, the program and the specification's loop
  agree. Every grant the claim handler makes (18 experience) is of this kind.
\<close>

lemma grant_agrees_below_two_thresholds:
  assumes "xp p + x < 2 * (lvl p * 100)"
  shows "grantCapsAndXp p c x = grant_spec p c x"
proof (cases "xp p + x < lvl p * 100")
  case True
  then show ?thesis
    by (simp add: grantCapsAndXp_def grant_spec_def level_loop_stop level_loop_spec_stop)
next
  case False
  with assms show ?thesis
    by (simp add: grantCapsAndXp_def grant_spec_def level_loop_step level_loop_stop
          level_loop_spec_step level_loop_spec_stop)
qed

text \<open>
  C2, as stated, fails: the threshold is not evaluated again from the current level at
  each iteration. The program computes it once, from the level at entry. A level-1
  player granted 250 experience is taken to level 3 with 50 experience left (two steps
  of 100); the loop with the threshold of the current level stops at level 2 with 150
  left, because the second threshold is 200.
\<close>

theorem grant_threshold_fixed_at_entry:
  "grantCapsAndXp (new_player (Some ''w'')) 0 250 =
     Some (True, (new_player (Some ''w''))\<lparr>xp := 50, lvl := 3, max_hp := 120, hp := 120\<rparr>)
   \<and> grant_spec (new_player (Some ''w'')) 0 250 =
     Some (True, (new_player (Some ''w''))\<lparr>xp := 150, lvl := 2, max_hp := 110, hp := 110\<rparr>)"
  by (simp add: grantCapsAndXp_def grant_spec_def new_player_def
        level_loop_step level_loop_stop level_loop_spec_step level_loop_spec_stop)

text \<open>What \<open>k\<close> passes through the loop body do to a player.\<close>

lemma level_up_funpow_fields:
  "xp ((level_up T ^^ k) q) = xp q - int k * T
   \<and> lvl ((level_up T ^^ k) q) = lvl q + int k
   \<and> max_hp ((level_up T ^^ k) q) = max_hp q + 10 * int k
   \<and> hp ((level_up T ^^ k) q) = (if k = 0 then hp q else max_hp q + 10 * int k)
   \<and> caps ((level_up T ^^ k) q) = caps q"
  by (induction k) (simp_all add: level_up_def algebra_simps)

text \<open>
  With a positive threshold the loop makes some number \<open>k\<close> of passes and returns: the
  experience is at least the threshold before each pass and below it after the last.
\<close>

lemma level_loop_iterates:
  assumes "0 < T"
  shows "\<exists>k. level_loop T q b = Some (b \<or> 0 < k, (level_up T ^^ k) q)
           \<and> (\<forall>j<k. T \<le> xp ((level_up T ^^ j) q))
           \<and> xp ((level_up T ^^ k) q) < T"
proof (induction "nat (xp q)" arbitrary: q b rule: less_induct)
  case less
  show ?case
  proof (cases "xp q < T")
    case True
    then have "level_loop T q b = Some (b \<or> 0 < (0::nat), (level_up T ^^ 0) q)
           \<and> (\<forall>j<(0::nat). T \<le> xp ((level_up T ^^ j) q))
           \<and> xp ((level_up T ^^ 0) q) < T"
      by (simp add: level_loop_stop)
    then show ?thesis by blast
  next
    case False
    from False assms have "nat (xp (level_up T q)) < nat (xp q)"
      by (simp add: level_up_def)
    from less [OF this, of True] obtain k where
      k: "level_loop T (level_up T q) True = Some (True, (level_up T ^^ k) (level_up T q))"
         "\<forall>j<k. T \<le> xp ((level_up T ^^ j) (level_up T q))"
         "xp ((level_up T ^^ k) (level_up T q)) < T"
      by auto
    have step: "level_loop T q b = level_loop T (level_up T q) True"
      using False by (simp add: level_loop_step level_up_def)
    have all: "\<forall>j<Suc k. T \<le> xp ((level_up T ^^ j) q)"
    proof (intro allI impI)
      fix j assume j: "j < Suc k"
      show "T \<le> xp ((level_up T ^^ j) q)"
      proof (cases j)
        case 0
        with False show ?thesis by simp
      next
        case (Suc j')
        with j k(2) show ?thesis by (simp add: funpow_swap1)
      qed
    qed
    from step k all have "level_loop T q b = Some (b \<or> 0 < Suc k, (level_up T ^^ Suc k) q)
           \<and> (\<forall>j<Suc k. T \<le> xp ((level_up T ^^ j) q))
           \<and> xp ((level_up T ^^ Suc k) q) < T"
      by (simp add: funpow_swap1)
    then show ?thesis by blast
  qed
qed

text \<open>
  C2, amended. The grant adds the currency delta unconditionally, adds the experience
  delta, and then loops with the threshold \<open>T = level \<times> 100\<close> of the level at entry,
  the same at every iteration: while experience is at least \<open>T\<close> it subtracts \<open>T\<close>,
  increments the level, adds 10 to maximum health and sets health to the new maximum;
  it returns whether at least one level-up occurred. After \<open>k\<close> level-ups the currency
  is the old currency plus the delta, experience is the sum less \<open>k \<times> T\<close> and below
  \<open>T\<close>, the level is \<open>k\<close> higher, maximum health \<open>10 \<times> k\<close> higher and, for
  \<open>k > 0\<close>, health equal to it. This holds for every player of level 1 or more and
  every pair of deltas, whatever the number of levels crossed.
\<close>

theorem grant_threshold_of_entry_level:
  assumes "1 \<le> lvl p"
  shows "\<exists>k. grantCapsAndXp p c x
               = Some (0 < k, (level_up (lvl p * 100) ^^ k) (p\<lparr>caps := caps p + c, xp := xp p + x\<rparr>))
           \<and> (\<forall>j<k. lvl p * 100
                       \<le> xp ((level_up (lvl p * 100) ^^ j) (p\<lparr>caps := caps p + c, xp := xp p + x\<rparr>)))
           \<and> xp ((level_up (lvl p * 100) ^^ k) (p\<lparr>caps := caps p + c, xp := xp p + x\<rparr>))
                < lvl p * 100
           \<and> (\<forall>q. grantCapsAndXp p c x = Some (0 < k, q) \<longrightarrow>
                  caps q = caps p + c
                \<and> xp q = xp p + x - int k * (lvl p * 100)
                \<and> lvl q = lvl p + int k
                \<and> max_hp q = max_hp p + 10 * int k
                \<and> hp q = (if k = 0 then hp p else max_hp p + 10 * int k))"
proof -
  let ?T = "lvl p * 100"
  let ?q = "p\<lparr>caps := caps p + c, xp := xp p + x\<rparr>"
  from assms have "0 < ?T" by simp
  from level_loop_iterates [OF this, of ?q False] obtain k where
    k: "level_loop ?T ?q False = Some (0 < k, (level_up ?T ^^ k) ?q)"
       "\<forall>j<k. ?T \<le> xp ((level_up ?T ^^ j) ?q)"
       "xp ((level_up ?T ^^ k) ?q) < ?T"
    by auto
  have g: "grantCapsAndXp p c x = Some (0 < k, (level_up ?T ^^ k) ?q)"
    using k(1) by (simp add: grantCapsAndXp_def Let_def)
  have f: "\<forall>q. grantCapsAndXp p c x = Some (0 < k, q) \<longrightarrow>
                  caps q = caps p + c
                \<and> xp q = xp p + x - int k * ?T
                \<and> lvl q = lvl p + int k
                \<and> max_hp q = max_hp p + 10 * int k
                \<and> hp q = (if k = 0 then hp p else max_hp p + 10 * int k)"
    using level_up_funpow_fields [where T = ?T and k = k and q = ?q] by (simp add: g)
  from g k(2,3) f show ?thesis by blast
qed

theorem grant_threshold_of_entry_level_witness:
  "1 \<le> lvl (new_player None)
   \<and> (\<exists>k. grantCapsAndXp (new_player None) 0 250
              = Some (0 < k, (level_up 100 ^^ k) ((new_player None)\<lparr>caps := 0, xp := 250\<rparr>))
          \<and> xp ((level_up 100 ^^ k) ((new_player None)\<lparr>caps := 0, xp := 250\<rparr>)) < 100)"
proof -
  have 1: "1 \<le> lvl (new_player None)" by (simp add: new_player_def)
  have l: "lvl (new_player None) * 100 = 100" "caps (new_player None) + 0 = 0"
    "xp (new_player None) + 250 = 250"
    by (simp_all add: new_player_def)
  from grant_threshold_of_entry_level [OF 1, of 0 250] 1 show ?thesis
    unfolding l by blast
qed

text \<open>
  C4. For a player at level \<open>L\<close> (levels start at 1) with no experience, a grant of
  exactly \<open>L \<times> 100\<close> experience gives exactly one level-up, leaves experience 0, adds 10
  to maximum health and sets health to the new maximum; a grant of
  \<open>2.5 \<times> (L \<times> 100) = 250 \<times> L\<close> gives exactly two level-ups.
\<close>

theorem grant_exact_threshold:
  assumes "1 \<le> lvl p" and "xp p = 0"
  shows "grantCapsAndXp p c (lvl p * 100) =
           Some (True, p\<lparr>caps := caps p + c, xp := 0, lvl := lvl p + 1,
                         max_hp := max_hp p + 10, hp := max_hp p + 10\<rparr>)
       \<and> grantCapsAndXp p c (250 * lvl p) =
           Some (True, p\<lparr>caps := caps p + c, xp := 50 * lvl p, lvl := lvl p + 2,
                         max_hp := max_hp p + 20, hp := max_hp p + 20\<rparr>)"
  using assms
  by (simp add: grantCapsAndXp_def level_loop_step level_loop_stop)

theorem grant_exact_threshold_witness:
  "1 \<le> lvl (new_player None) \<and> xp (new_player None) = 0
   \<and> grantCapsAndXp (new_player None) 7 100 =
        Some (True, (new_player None)\<lparr>caps := 7, xp := 0, lvl := 2, max_hp := 110, hp := 110\<rparr>)
   \<and> grantCapsAndXp (new_player None) 7 250 =
        Some (True, (new_player None)\<lparr>caps := 7, xp := 50, lvl := 3, max_hp := 120, hp := 120\<rparr>)"
  using grant_exact_threshold [of "new_player None" 7]
  by (simp add: new_player_def)

section \<open>Properties of crafting\<close>

text \<open>The bag built from the inventory holds, per identifier, as many indices as the
  inventory has items of that identifier.\<close>

lemma have_count_bag_loop:
  "have_count (bag_loop bag idx its) m = have_count bag m + count_id its m"
  by (induction its arbitrary: bag idx) (auto simp: have_count_def count_id_def split: option.splits)

lemma have_count_inventory:
  "have_count (bag_loop Map.empty 0 its) m = count_id its m"
  by (simp add: have_count_bag_loop) (simp add: have_count_def)

lemma check_materials_find:
  "check_materials bag needed =
     (case find (\<lambda>(m, n). have_count bag m < n) needed of
        None \<Rightarrow> None
      | Some (m, n) \<Rightarrow> Some (Missing m (n - have_count bag m)))"
  by (induction needed) auto

lemma consume_mat_numeral:
  "consume_mat matId (numeral k) (bag, items) =
     (case bag matId of
        None \<Rightarrow> Inl items
      | Some idxs \<Rightarrow>
          (case pop idxs of
             (idx, idxs') \<Rightarrow>
               consume_mat matId (pred_numeral k) (bag(matId \<mapsto> idxs'), splice1 idx items)))"
  by (simp add: numeral_eq_Suc)

text \<open>
  C1. With at least the required count of every required material in the inventory,
  craft removes exactly the required count of each and nothing else, appends the one new
  item, and the inventory gets shorter by the sum of the required quantities minus one.
  The program does not: it removes by the indices recorded before the first removal,
  although every removal moves the later items down. For the helmet recipe (three scrap
  metal, one duct tape) and the inventory of three scrap metal followed by one duct
  tape, the three scrap metal are removed, the index 3 recorded for the duct tape is
  then past the end of the one-item inventory, and nothing more is removed: the duct
  tape stays, and the inventory has two items where the claim gives \<open>4 - (4 - 1) = 1\<close>.
  For the inventory scrap metal, duct tape, scrap metal, scrap metal, laser rifle, the
  index 1 recorded for the duct tape is the place of the laser rifle once the scrap
  metal is gone: the rifle is removed and the duct tape stays.
\<close>

theorem craftItem_stale_index:
  "craftItem
     ((new_player (Some ''w''))\<lparr>inventory :=
        [scrap_metal_item 1, scrap_metal_item 2, scrap_metal_item 3, duct_tape_item 4]\<rparr>)
     ''scav_helmet'' 1700000000005 1700000000006
   = (Inr \<lparr>item_id = ''scav_helmet_1700000000005'', item_name = Some ''Scavenger Helmet'',
            item_type = Some ''head'', item_rarity = Some ''uncommon'', item_stats = Some [(''defense'', 5)],
            item_source = ''crafting'', item_ts = 1700000000006, nftMint = None\<rparr>,
      (new_player (Some ''w''))\<lparr>inventory :=
        [duct_tape_item 4,
         \<lparr>item_id = ''scav_helmet_1700000000005'', item_name = Some ''Scavenger Helmet'',
            item_type = Some ''head'', item_rarity = Some ''uncommon'', item_stats = Some [(''defense'', 5)],
            item_source = ''crafting'', item_ts = 1700000000006, nftMint = None\<rparr>]\<rparr>)
   \<and> inventory (snd (craftItem
         ((new_player (Some ''w''))\<lparr>inventory :=
            [scrap_metal_item 1, duct_tape_item 2, scrap_metal_item 3, scrap_metal_item 4,
             laser_rifle_item 5]\<rparr>)
         ''scav_helmet'' 1700000000005 1700000000006))
     = [duct_tape_item 2,
        \<lparr>item_id = ''scav_helmet_1700000000005'', item_name = Some ''Scavenger Helmet'',
           item_type = Some ''head'', item_rarity = Some ''uncommon'', item_stats = Some [(''defense'', 5)],
           item_source = ''crafting'', item_ts = 1700000000006, nftMint = None\<rparr>]"
proof -
  have id: "show_int 1700000000005 = ''1700000000005''"
    by (simp add: show_int_def digits_of.simps)
  have first: "craftItem
     ((new_player (Some ''w''))\<lparr>inventory :=
        [scrap_metal_item 1, scrap_metal_item 2, scrap_metal_item 3, duct_tape_item 4]\<rparr>)
     ''scav_helmet'' 1700000000005 1700000000006
   = (Inr \<lparr>item_id = ''scav_helmet_1700000000005'', item_name = Some ''Scavenger Helmet'',
            item_type = Some ''head'', item_rarity = Some ''uncommon'', item_stats = Some [(''defense'', 5)],
            item_source = ''crafting'', item_ts = 1700000000006, nftMint = None\<rparr>,
      (new_player (Some ''w''))\<lparr>inventory :=
        [duct_tape_item 4,
         \<lparr>item_id = ''scav_helmet_1700000000005'', item_name = Some ''Scavenger Helmet'',
            item_type = Some ''head'', item_rarity = Some ''uncommon'', item_stats = Some [(''defense'', 5)],
            item_source = ''crafting'', item_ts = 1700000000006, nftMint = None\<rparr>]\<rparr>)"
    by (simp add: craftItem_def recipes_def get_property_def have_count_def pop_def splice1_def
          consume_mat_numeral Let_def id
          scrap_metal_item_def duct_tape_item_def new_player_def)
  have second: "inventory (snd (craftItem
         ((new_player (Some ''w''))\<lparr>inventory :=
            [scrap_metal_item 1, duct_tape_item 2, scrap_metal_item 3, scrap_metal_item 4,
             laser_rifle_item 5]\<rparr>)
         ''scav_helmet'' 1700000000005 1700000000006))
     = [duct_tape_item 2,
        \<lparr>item_id = ''scav_helmet_1700000000005'', item_name = Some ''Scavenger Helmet'',
           item_type = Some ''head'', item_rarity = Some ''uncommon'', item_stats = Some [(''defense'', 5)],
           item_source = ''crafting'', item_ts = 1700000000006, nftMint = None\<rparr>]"
    by (simp add: craftItem_def recipes_def get_property_def have_count_def pop_def splice1_def
          consume_mat_numeral Let_def id
          scrap_metal_item_def duct_tape_item_def laser_rifle_item_def new_player_def)
  from first second show ?thesis by (rule conjI)
qed

text \<open>
  C3. When the inventory is short of some required material of a known recipe, craft
  returns the error that names the first deficient material (in the recipe's order) with
  the amount missing, and the player is returned exactly as it was.
\<close>

theorem craftItem_shortfall:
  assumes "recipes recipeId = Some recipe"
    and "\<exists>(m, n) \<in> set (requires recipe). count_id (inventory p) m < n"
  shows "\<exists>m n. find (\<lambda>(m, n). count_id (inventory p) m < n) (requires recipe) = Some (m, n)
           \<and> count_id (inventory p) m < n
           \<and> craftItem p recipeId now_id now_ts
               = (Inl (Missing m (n - count_id (inventory p) m)), p)"
proof -
  let ?short = "\<lambda>(m, n). count_id (inventory p) m < n"
  from assms(2) obtain m n where f: "find ?short (requires recipe) = Some (m, n)"
    by (cases "find ?short (requires recipe)") (auto simp: find_None_iff)
  then have lt: "count_id (inventory p) m < n"
    by (auto simp: find_Some_iff)
  have "craftItem p recipeId now_id now_ts = (Inl (Missing m (n - count_id (inventory p) m)), p)"
    using assms(1) f
    by (simp add: craftItem_def get_property_def check_materials_find have_count_inventory)
  with f lt show ?thesis by blast
qed

theorem craftItem_shortfall_witness:
  "recipes ''scav_helmet'' \<noteq> None
   \<and> count_id [scrap_metal_item 1, duct_tape_item 2, scrap_metal_item 3] ''scrap_metal'' < 3
   \<and> craftItem ((new_player (Some ''w''))\<lparr>inventory := [scrap_metal_item 1, duct_tape_item 2, scrap_metal_item 3]\<rparr>)
        ''scav_helmet'' 10 10
      = (Inl (Missing ''scrap_metal'' 1),
         (new_player (Some ''w''))\<lparr>inventory := [scrap_metal_item 1, duct_tape_item 2, scrap_metal_item 3]\<rparr>)"
proof -
  let ?p = "(new_player (Some ''w''))\<lparr>inventory := [scrap_metal_item 1, duct_tape_item 2, scrap_metal_item 3]\<rparr>"
  let ?r = "\<lparr>recipe_name = ''Scavenger Helmet'', recipe_type = ''head'', recipe_rarity = ''uncommon'',
         requires = [(''scrap_metal'', 3), (''duct_tape'', 1)],
         recipe_stats = [(''defense'', 5)]\<rparr>"
  have r: "recipes ''scav_helmet'' = Some ?r"
    by (simp add: recipes_def)
  have c: "count_id (inventory ?p) ''scrap_metal'' = 2"
    by (simp add: count_id_def scrap_metal_item_def duct_tape_item_def)
  have s: "\<exists>(m, n) \<in> set (requires ?r). count_id (inventory ?p) m < n"
    using c by simp
  from craftItem_shortfall [OF r s, of 10 10] c r show ?thesis
    by (auto simp: count_id_def scrap_metal_item_def duct_tape_item_def split: if_splits)
qed

section \<open>Properties of equipment\<close>

lemma find_in_set: "find P xs = Some x \<Longrightarrow> x \<in> set xs \<and> P x"
  by (induction xs) (auto split: if_splits)

lemma set_slot_others: "sl' \<noteq> sl \<Longrightarrow> get_slot sl' (set_slot sl it g) = get_slot sl' g"
  by (cases sl; cases sl') simp_all

lemma set_slot_same: "get_slot sl (set_slot sl it g) = Some it"
  by (cases sl) simp_all

lemma equipItem_success:
  assumes "equipItem p itemId = (Inr (sl, it), p')"
  shows "find (\<lambda>i. item_id i = itemId) (inventory p) = Some it"
    and "slot_of (item_type it) = Some sl"
    and "p' = (if truthy_num (defense_of it)
               then p\<lparr>gear := set_slot sl it (gear p),
                      max_hp := 100 + the (defense_of it),
                      hp := min (hp p) (100 + the (defense_of it))\<rparr>
               else p\<lparr>gear := set_slot sl it (gear p)\<rparr>)"
  using assms
  by (auto simp: equipItem_def Let_def truthy_num_def split: option.splits if_splits)

text \<open>
  C8. Equip neither creates nor destroys inventory items. An identifier that no
  inventory item carries gives the item-not-found error and the player unchanged; a
  located item whose category is not head, body, weapon or accessory gives the
  not-equippable error and the player unchanged; a successful equip leaves the inventory
  as it was, puts the located item into the slot of its category and leaves the other
  slots alone, so that an earlier occupant that was in the inventory still is. Apart
  from the two health fields, the slot is all that changes.
\<close>

theorem equipItem_inventory_frame:
  "((\<forall>i \<in> set (inventory p). item_id i \<noteq> itemId)
      \<longrightarrow> equipItem p itemId = (Inl ItemNotFound, p))
   \<and> (\<forall>it. find (\<lambda>i. item_id i = itemId) (inventory p) = Some it
            \<and> item_type it \<notin> {Some ''head'', Some ''body'', Some ''weapon'', Some ''accessory''}
      \<longrightarrow> equipItem p itemId = (Inl NotEquippable, p))
   \<and> (\<forall>sl it p'. equipItem p itemId = (Inr (sl, it), p')
      \<longrightarrow> inventory p' = inventory p
          \<and> it \<in> set (inventory p) \<and> item_id it = itemId
          \<and> slot_of (item_type it) = Some sl
          \<and> get_slot sl (gear p') = Some it
          \<and> (\<forall>sl'. sl' \<noteq> sl \<longrightarrow> get_slot sl' (gear p') = get_slot sl' (gear p))
          \<and> (\<forall>old. get_slot sl (gear p) = Some old \<and> old \<in> set (inventory p)
                 \<longrightarrow> old \<in> set (inventory p'))
          \<and> p'\<lparr>hp := hp p, max_hp := max_hp p\<rparr> = p\<lparr>gear := set_slot sl it (gear p)\<rparr>)"
proof (intro conjI allI impI)
  assume "\<forall>i \<in> set (inventory p). item_id i \<noteq> itemId"
  then have "find (\<lambda>i. item_id i = itemId) (inventory p) = None"
    by (simp add: find_None_iff)
  then show "equipItem p itemId = (Inl ItemNotFound, p)"
    by (simp add: equipItem_def)
next
  fix it
  assume "find (\<lambda>i. item_id i = itemId) (inventory p) = Some it
            \<and> item_type it \<notin> {Some ''head'', Some ''body'', Some ''weapon'', Some ''accessory''}"
  then show "equipItem p itemId = (Inl NotEquippable, p)"
    by (simp add: equipItem_def slot_of_def)
next
  fix sl it p'
  assume eq: "equipItem p itemId = (Inr (sl, it), p')"
  note s = equipItem_success [OF eq]
  from s(1) show "it \<in> set (inventory p)" "item_id it = itemId"
    by (auto dest: find_in_set)
  from s(2) show "slot_of (item_type it) = Some sl" .
  from s(3) show inv: "inventory p' = inventory p" by (simp split: if_splits)
  from s(3) have g: "gear p' = set_slot sl it (gear p)" by (simp split: if_splits)
  from g show "get_slot sl (gear p') = Some it" by (simp add: set_slot_same)
  from s(3) show "p'\<lparr>hp := hp p, max_hp := max_hp p\<rparr> = p\<lparr>gear := set_slot sl it (gear p)\<rparr>"
    by (simp split: if_splits)
  { fix sl' assume "sl' \<noteq> sl"
    with g show "get_slot sl' (gear p') = get_slot sl' (gear p)" by (simp add: set_slot_others) }
  { fix old assume "get_slot sl (gear p) = Some old \<and> old \<in> set (inventory p)"
    with inv show "old \<in> set (inventory p')" by simp }
qed

theorem equipItem_inventory_frame_witness:
  "equipItem veteran ''stimpak'' = (Inl ItemNotFound, veteran)
   \<and> equipItem veteran ''scrap_metal'' = (Inl NotEquippable, veteran)
   \<and> fst (equipItem veteran ''laser_rifle'') = Inr (SlotWeapon, laser_rifle_item 3)
   \<and> inventory (snd (equipItem veteran ''laser_rifle'')) = inventory veteran
   \<and> weapon (gear (snd (equipItem veteran ''laser_rifle''))) = Some (laser_rifle_item 3)"
proof -
  have a: "\<forall>i \<in> set (inventory veteran). item_id i \<noteq> ''stimpak''"
    by (simp add: veteran_def scrap_metal_item_def power_armor_item_def laser_rifle_item_def
          padded_vest_def)
  have b: "find (\<lambda>i. item_id i = ''scrap_metal'') (inventory veteran) = Some (scrap_metal_item 1)
             \<and> item_type (scrap_metal_item 1)
                   \<notin> {Some ''head'', Some ''body'', Some ''weapon'', Some ''accessory''}"
    by (simp add: veteran_def scrap_metal_item_def)
  obtain p' where c: "equipItem veteran ''laser_rifle'' = (Inr (SlotWeapon, laser_rifle_item 3), p')"
    by (simp add: equipItem_def veteran_def scrap_metal_item_def power_armor_item_def
          laser_rifle_item_def padded_vest_def slot_of_def truthy_num_def defense_of_def)
  from equipItem_inventory_frame [of veteran "''stimpak''"] a
  have 1: "equipItem veteran ''stimpak'' = (Inl ItemNotFound, veteran)" by blast
  from equipItem_inventory_frame [of veteran "''scrap_metal''"] b
  have 2: "equipItem veteran ''scrap_metal'' = (Inl NotEquippable, veteran)" by blast
  from equipItem_inventory_frame [of veteran "''laser_rifle''"] c
  have 3: "inventory p' = inventory veteran \<and> get_slot SlotWeapon (gear p') = Some (laser_rifle_item 3)"
    by blast
  from 1 2 3 c show ?thesis by simp
qed

text \<open>
  C9, as stated, fails for a defense stat of zero: the test \<open>item.stats?.defense\<close>
  is false for it, and a level-3 player with maximum health 120 keeps 120 where
  \<open>100 + 0\<close> is claimed.
\<close>

theorem equipItem_zero_defense:
  "defense_of padded_vest = Some 0
   \<and> fst (equipItem veteran ''padded_vest'') = Inr (SlotBody, padded_vest)
   \<and> max_hp (snd (equipItem veteran ''padded_vest'')) = 120
   \<and> max_hp (snd (equipItem veteran ''padded_vest'')) \<noteq> 100 + 0"
  by (simp add: equipItem_def veteran_def scrap_metal_item_def power_armor_item_def
        laser_rifle_item_def padded_vest_def slot_of_def truthy_num_def defense_of_def)

text \<open>
  C9, amended. A successful equip of an item whose defense stat is present and not zero
  sets maximum health to exactly 100 plus that value, whatever the level and the other
  slots hold, and clamps health to the new maximum; an item with no defense stat, or with
  defense zero, leaves both health fields unchanged.
\<close>

theorem equipItem_defense_health:
  assumes "equipItem p itemId = (Inr (sl, it), p')"
  shows "(\<forall>d. defense_of it = Some d \<and> d \<noteq> 0
            \<longrightarrow> max_hp p' = 100 + d \<and> hp p' = min (hp p) (max_hp p'))
       \<and> (defense_of it = None \<or> defense_of it = Some 0
            \<longrightarrow> max_hp p' = max_hp p \<and> hp p' = hp p)"
  using equipItem_success(3) [OF assms]
  by (auto simp: truthy_num_def)

theorem equipItem_defense_health_witness:
  "fst (equipItem veteran ''t45_power_armor'') = Inr (SlotBody, power_armor_item 2)
   \<and> defense_of (power_armor_item 2) = Some 30
   \<and> max_hp (snd (equipItem veteran ''t45_power_armor'')) = 130
   \<and> hp (snd (equipItem veteran ''t45_power_armor'')) = 120
   \<and> fst (equipItem veteran ''laser_rifle'') = Inr (SlotWeapon, laser_rifle_item 3)
   \<and> defense_of (laser_rifle_item 3) = None
   \<and> max_hp (snd (equipItem veteran ''laser_rifle'')) = 120
   \<and> hp (snd (equipItem veteran ''laser_rifle'')) = 120"
proof -
  obtain p1 where a: "equipItem veteran ''t45_power_armor'' = (Inr (SlotBody, power_armor_item 2), p1)"
    by (simp add: equipItem_def veteran_def scrap_metal_item_def power_armor_item_def
          laser_rifle_item_def padded_vest_def slot_of_def truthy_num_def defense_of_def)
  obtain p2 where b: "equipItem veteran ''laser_rifle'' = (Inr (SlotWeapon, laser_rifle_item 3), p2)"
    by (simp add: equipItem_def veteran_def scrap_metal_item_def power_armor_item_def
          laser_rifle_item_def padded_vest_def slot_of_def truthy_num_def defense_of_def)
  have da: "defense_of (power_armor_item 2) = Some 30"
    by (simp add: defense_of_def power_armor_item_def)
  have db: "defense_of (laser_rifle_item 3) = None"
    by (simp add: defense_of_def laser_rifle_item_def)
  have h: "hp veteran = 120" "max_hp veteran = 120"
    by (simp_all add: veteran_def)
  from equipItem_defense_health [OF a] da h
  have 1: "max_hp p1 = 130 \<and> hp p1 = 120" by simp
  from equipItem_defense_health [OF b] db h
  have 2: "max_hp p2 = 120 \<and> hp p2 = 120" by simp
  from 1 2 a b da db show ?thesis by simp
qed

section \<open>Properties of the player table\<close>




section \<open>Properties of the claim\<close>

text \<open>An encounter changes health and reputation only.\<close>

lemma rollEncounter_frame:
  assumes "rollEncounter p r = (enc, p')"
  shows "lvl p' = lvl p \<and> caps p' = caps p \<and> xp p' = xp p \<and> cooldowns p' = cooldowns p
         \<and> inventory p' = inventory p \<and> wallet p' = wallet p"
  using assms by (auto simp: rollEncounter_def split: if_splits)

text \<open>For a player of level 1 or more the grant returns and credits the currency in full.\<close>

lemma grantCapsAndXp_returns:
  assumes "1 \<le> lvl p"
  shows "\<exists>lv p'. grantCapsAndXp p c x = Some (lv, p') \<and> caps p' = caps p + c
           \<and> cooldowns p' = cooldowns p \<and> inventory p' = inventory p \<and> wallet p' = wallet p
           \<and> xp p' < lvl p * 100"
proof -
  let ?q = "p\<lparr>caps := caps p + c, xp := xp p + x\<rparr>"
  from assms have "0 < lvl p * 100" by simp
  from level_loop_returns [OF this, of ?q False] show ?thesis
    by (auto simp: grantCapsAndXp_def Let_def)
qed

lemma rarityBonus_nonneg: "0 \<le> rarityBonus loot"
  by (simp add: rarityBonus_def split: option.splits)

text \<open>
  Reward resolution for a player of level 1 or more returns; it has set the last-claim
  timestamp to the current time and credited the earned currency, which is at least the
  base of 12.
\<close>

lemma resolve_rewards_returns:
  assumes "1 \<le> lvl player"
  shows "\<exists>p5 li enc earned lv.
           resolve_rewards cfg loc req player now rnd_loot rnd_enc = Some (p5, li, enc, earned, lv)
           \<and> caps p5 = caps player + earned \<and> 12 \<le> earned
           \<and> claim (cooldowns p5) = now \<and> wallet p5 = wallet player"
proof -
  let ?p1 = "player\<lparr>cooldowns := (cooldowns player)\<lparr>claim := now\<rparr>\<rparr>"
  let ?loot = "rollLoot (lootTable loc) ?p1 rnd_loot"
  let ?li = "case ?loot of
               None \<Rightarrow> None
             | Some l \<Rightarrow>
                 Some \<lparr>item_id = entry_id l, item_name = Some (entry_name l),
                       item_type = Some (entry_type l), item_rarity = Some (entry_rarity l),
                       item_stats = Some (entry_stats l),
                       item_source = loc_name loc, item_ts = now,
                       nftMint = map_option nft_mint (maybeMintNftForLoot cfg ?loot)\<rparr>"
  let ?p2 = "case ?li of None \<Rightarrow> ?p1 | Some li \<Rightarrow> ?p1\<lparr>inventory := inventory ?p1 @ [li]\<rparr>"
  have p2: "lvl ?p2 = lvl player \<and> caps ?p2 = caps player \<and> claim (cooldowns ?p2) = now
            \<and> wallet ?p2 = wallet player"
    by (cases ?li) simp_all
  obtain enc p3 where e: "rollEncounter ?p2 rnd_enc = (enc, p3)"
    by fastforce
  note f = rollEncounter_frame [OF e]
  let ?hpRisk = "if req_eventName req = Some ''Raider Skirmish''
                       \<and> req_locationId req = Some ''nukaTown'' then 10 else (0::int)"
  let ?capsMod = "if req_eventName req = Some ''Brotherhood Patrol''
                        \<and> req_locationId req = Some ''vault13'' then 20 else (0::int)"
  let ?p4 = "if ?hpRisk > 0 then p3\<lparr>hp := max 0 (hp p3 - ?hpRisk)\<rparr> else p3"
  let ?earned = "12 + rarityBonus ?loot + ?capsMod"
  have p4: "lvl ?p4 = lvl player \<and> caps ?p4 = caps player \<and> claim (cooldowns ?p4) = now
            \<and> wallet ?p4 = wallet player"
    using f p2 by simp
  with assms have "1 \<le> lvl ?p4" by simp
  from grantCapsAndXp_returns [OF this, of ?earned 18] obtain lv p5 where
    g: "grantCapsAndXp ?p4 ?earned 18 = Some (lv, p5)" "caps p5 = caps ?p4 + ?earned"
       "cooldowns p5 = cooldowns ?p4" "wallet p5 = wallet ?p4"
    by blast
  have r: "resolve_rewards cfg loc req player now rnd_loot rnd_enc = Some (p5, ?li, enc, ?earned, lv)"
    using e g(1) by (simp add: resolve_rewards_def Let_def)
  have "12 \<le> ?earned" using rarityBonus_nonneg [of ?loot] by simp
  with r g p4 show ?thesis by auto
qed

text \<open>
  C5. When the mint is not simulated and a claim has passed the cooldown and the
  geofence check, a mint that fails rolls nothing back: the handler answers with success,
  the stored player is the one reward resolution produced (last-claim timestamp set to
  now, currency credited in full), the answer reports the full earned amount and the
  summary of that player, and the failure is the \<open>chain\<close> field of the answer. The
  answer for a mint that succeeds differs in the \<open>chain\<close> field only, and the stored
  table not at all. The player's level is 1 or more, as for every player the server
  creates and levels.
\<close>

theorem claim_mint_failure_keeps_local_state:
  assumes "\<not> SIMULATE_MINT cfg"
    and "\<not> falsy (req_wallet req)" and "\<not> falsy (req_locationId req)"
    and "locations cfg (key_of (req_locationId req)) = Some loc"
    and "ensurePlayer (req_wallet req) players = (Own player, players1)"
    and "1 \<le> lvl player"
    and "cooldown_check cfg player now = None"
    and "geofence_check cfg loc (req_lat req) (req_lng req) = None"
  shows "\<exists>p5 resp.
           resolve_rewards cfg loc req player now rnd_loot rnd_enc
             = Some (p5, resp_loot resp, resp_encounter resp, capsEarned resp, leveledUp resp)
         \<and> claim_survival cfg players req now rnd_loot rnd_enc (MintThrows detail)
             = Some (Inr resp, players1(key_of (req_wallet req) \<mapsto> p5))
         \<and> chain resp = Some (ChainError ''Mint failed'' detail)
         \<and> resp_player resp = summary p5
         \<and> caps p5 = caps player + capsEarned resp
         \<and> 12 \<le> capsEarned resp
         \<and> claim (cooldowns p5) = now
         \<and> cooldownEndsAt resp = now + COOLDOWN_MS cfg
         \<and> (\<forall>sig. claim_survival cfg players req now rnd_loot rnd_enc (MintReturns sig)
                   = Some (Inr (resp\<lparr>chain := Some (maybeMintCapsOnChain cfg (MintReturns sig))\<rparr>),
                           players1(key_of (req_wallet req) \<mapsto> p5)))"
proof -
  from resolve_rewards_returns [OF assms(6), of cfg loc req now rnd_loot rnd_enc]
  obtain p5 li enc earned lv where
    r: "resolve_rewards cfg loc req player now rnd_loot rnd_enc = Some (p5, li, enc, earned, lv)"
    and c: "caps p5 = caps player + earned" "12 \<le> earned" "claim (cooldowns p5) = now"
    by blast
  let ?resp = "\<lparr>resp_location = loc_name loc, resp_loot = li, resp_encounter = enc,
                capsEarned = earned, leveledUp = lv, resp_player = summary p5,
                chain = Some (ChainError ''Mint failed'' detail),
                cooldownEndsAt = claim (cooldowns p5) + COOLDOWN_MS cfg\<rparr>"
  have fail: "claim_survival cfg players req now rnd_loot rnd_enc (MintThrows detail)
          = Some (Inr ?resp, players1(key_of (req_wallet req) \<mapsto> p5))"
    using assms r by (simp add: claim_survival_def get_property_def maybeMintCapsOnChain_def)
  have ok: "\<And>sig. claim_survival cfg players req now rnd_loot rnd_enc (MintReturns sig)
          = Some (Inr (?resp\<lparr>chain := Some (maybeMintCapsOnChain cfg (MintReturns sig))\<rparr>),
                  players1(key_of (req_wallet req) \<mapsto> p5))"
    using assms r by (simp add: claim_survival_def get_property_def)
  from r c fail ok show ?thesis
    by (intro exI [of _ p5] exI [of _ ?resp]) simp
qed

theorem claim_mint_failure_keeps_local_state_witness:
  "\<not> SIMULATE_MINT default_config
   \<and> cooldown_check default_config (new_player (Some ''w'')) 1700000000000 = None
   \<and> geofence_check default_config vault13 None None = None
   \<and> (\<exists>p5 resp.
         claim_survival default_config Map.empty claim_at_vault13 1700000000000 (1 / 2) (1 / 2)
             (MintThrows ''rpc timeout'')
           = Some (Inr resp, [''w'' \<mapsto> p5])
         \<and> chain resp = Some (ChainError ''Mint failed'' ''rpc timeout'')
         \<and> caps p5 = capsEarned resp \<and> 12 \<le> capsEarned resp
         \<and> claim (cooldowns p5) = 1700000000000)"
proof -
  have 1: "\<not> SIMULATE_MINT default_config" by (simp add: default_config_def)
  have 2: "\<not> falsy (req_wallet claim_at_vault13)" "\<not> falsy (req_locationId claim_at_vault13)"
    by (simp_all add: falsy_def claim_at_vault13_def)
  have 3: "locations default_config (key_of (req_locationId claim_at_vault13)) = Some vault13"
    by (simp add: locations_def key_of_def claim_at_vault13_def)
  have 4: "ensurePlayer (req_wallet claim_at_vault13) Map.empty
             = (Own (new_player (Some ''w'')), [''w'' \<mapsto> new_player (Some ''w'')])"
    by (simp add: ensurePlayer_def get_property_def object_prototype_keys_def key_of_def
          claim_at_vault13_def)
  have 5: "1 \<le> lvl (new_player (Some ''w''))" by (simp add: new_player_def)
  have 6: "cooldown_check default_config (new_player (Some ''w'')) 1700000000000 = None"
    by (simp add: cooldown_check_def default_config_def new_player_def)
  have 7: "geofence_check default_config vault13
             (req_lat claim_at_vault13) (req_lng claim_at_vault13) = None"
    by (simp add: geofence_check_def claim_at_vault13_def)
  have k: "key_of (req_wallet claim_at_vault13) = ''w''" "caps (new_player (Some ''w'')) = 0"
    by (simp_all add: key_of_def claim_at_vault13_def new_player_def)
  from claim_mint_failure_keeps_local_state
         [OF 1 2 3 4 5 6 7, of "1 / 2" "1 / 2" "''rpc timeout''"]
  obtain p5 resp where
    "claim_survival default_config Map.empty claim_at_vault13 1700000000000 (1 / 2) (1 / 2)
             (MintThrows ''rpc timeout'')
           = Some (Inr resp, [''w'' \<mapsto> p5])"
    "chain resp = Some (ChainError ''Mint failed'' ''rpc timeout'')"
    "caps p5 = capsEarned resp" "12 \<le> capsEarned resp" "claim (cooldowns p5) = 1700000000000"
    unfolding k by auto
  with 1 6 7 show ?thesis
    unfolding claim_at_vault13_def by (simp del: One_nat_def) blast
qed

text \<open>
  C6. For a stored player whose last-claim timestamp is not after the current time and
  lies less than the cooldown back, a claim with a wallet and a known location answers
  with the cooldown error; the remaining time is the cooldown minus the elapsed time, is
  positive and at most the cooldown; the player table is returned as it was.
\<close>

theorem claim_cooldown_active:
  assumes "\<not> falsy (req_wallet req)" and "\<not> falsy (req_locationId req)"
    and "locations cfg (key_of (req_locationId req)) = Some loc"
    and "players (key_of (req_wallet req)) = Some p"
    and "claim (cooldowns p) \<le> now"
    and "now - claim (cooldowns p) < COOLDOWN_MS cfg"
  shows "\<exists>remaining.
           claim_survival cfg players req now rnd_loot rnd_enc ext
             = Some (Inl (CooldownActive remaining), players)
         \<and> remaining = COOLDOWN_MS cfg - (now - claim (cooldowns p))
         \<and> 0 < remaining \<and> remaining \<le> COOLDOWN_MS cfg"
  using assms
  by (simp add: claim_survival_def ensurePlayer_def get_property_def cooldown_check_def)

theorem claim_cooldown_active_witness:
  "claim (cooldowns recent_claimer) \<le> 1700000600000
   \<and> 1700000600000 - claim (cooldowns recent_claimer) < COOLDOWN_MS default_config
   \<and> claim_survival default_config [''w'' \<mapsto> recent_claimer] claim_at_vault13 1700000600000
        (1 / 2) (1 / 2) (MintReturns ''sig'')
      = Some (Inl (CooldownActive 3000000), [''w'' \<mapsto> recent_claimer])"
proof -
  have 2: "\<not> falsy (req_wallet claim_at_vault13)" "\<not> falsy (req_locationId claim_at_vault13)"
    by (simp_all add: falsy_def claim_at_vault13_def)
  have 3: "locations default_config (key_of (req_locationId claim_at_vault13)) = Some vault13"
    by (simp add: locations_def key_of_def claim_at_vault13_def)
  have 4: "[''w'' \<mapsto> recent_claimer] (key_of (req_wallet claim_at_vault13)) = Some recent_claimer"
    by (simp add: key_of_def claim_at_vault13_def)
  have 5: "claim (cooldowns recent_claimer) \<le> 1700000600000"
    by (simp add: recent_claimer_def)
  have 6: "1700000600000 - claim (cooldowns recent_claimer) < COOLDOWN_MS default_config"
    by (simp add: recent_claimer_def default_config_def)
  have v: "COOLDOWN_MS default_config - (1700000600000 - claim (cooldowns recent_claimer)) = 3000000"
    by (simp add: recent_claimer_def default_config_def)
  from claim_cooldown_active
         [where players = "[''w'' \<mapsto> recent_claimer]" and rnd_loot = "1 / 2"
            and rnd_enc = "1 / 2" and ext = "MintReturns ''sig''", OF 2 3 4 5 6] 5 6 v
  show ?thesis by auto
qed

section \<open>Properties of double rounding\<close>

text \<open>Rounding to the nearest integer, ties to even.\<close>

lemma rhe_floor_le: "\<lfloor>q\<rfloor> \<le> round_half_even q"
  by (simp add: round_half_even_def Let_def)

lemma rhe_le_floor_Suc: "round_half_even q \<le> \<lfloor>q\<rfloor> + 1"
  by (simp add: round_half_even_def Let_def)

lemma rhe_of_int [simp]: "round_half_even (of_int m) = m"
  by (simp add: round_half_even_def Let_def)

lemma rhe_ge_int:
  assumes "of_int m \<le> q"
  shows "m \<le> round_half_even q"
proof -
  from assms have "m \<le> \<lfloor>q\<rfloor>" by (simp add: le_floor_iff)
  with rhe_floor_le [of q] show ?thesis by simp
qed

lemma rhe_le_int:
  assumes "q \<le> of_int m"
  shows "round_half_even q \<le> m"
proof (cases "q = of_int m")
  case True
  then show ?thesis by simp
next
  case False
  with assms have "q < of_int m" by simp
  then have "\<lfloor>q\<rfloor> < m" by (simp add: floor_less_iff)
  with rhe_le_floor_Suc [of q] show ?thesis by simp
qed

lemma rhe_mono:
  assumes "q \<le> q'"
  shows "round_half_even q \<le> round_half_even q'"
proof (cases "\<lfloor>q\<rfloor> = \<lfloor>q'\<rfloor>")
  case True
  with assms show ?thesis
    by (auto simp: round_half_even_def Let_def)
next
  case False
  with assms have "\<lfloor>q\<rfloor> < \<lfloor>q'\<rfloor>"
    by (simp add: floor_mono order_less_le)
  with rhe_le_floor_Suc [of q] rhe_floor_le [of q'] show ?thesis by simp
qed

lemma rhe_nonneg: "0 \<le> q \<Longrightarrow> 0 \<le> round_half_even q"
  using rhe_ge_int [of 0 q] by simp

lemma powr_powi: "(2::real) powr real_of_int k = 2 powi k"
  by (simp add: powr_real_of_int')

lemma powr_powi_Suc: "(2::real) powr (real_of_int k + 1) = 2 powi (k + 1)"
  using powr_powi [of "k + 1"] by simp

lemma floor_log2_bounds:
  assumes "0 < x"
  shows "2 powi \<lfloor>log 2 x\<rfloor> \<le> x" and "x < 2 powi (\<lfloor>log 2 x\<rfloor> + 1)"
proof -
  have "\<lfloor>log 2 x\<rfloor> = \<lfloor>log 2 x\<rfloor> \<longleftrightarrow>
          2 powr real_of_int \<lfloor>log 2 x\<rfloor> \<le> x \<and> x < 2 powr real_of_int (\<lfloor>log 2 x\<rfloor> + 1)"
    using assms by (intro floor_log_eq_powr_iff) simp_all
  then show "2 powi \<lfloor>log 2 x\<rfloor> \<le> x" and "x < 2 powi (\<lfloor>log 2 x\<rfloor> + 1)"
    by (simp_all add: powr_powi powr_powi_Suc)
qed



lemma two_powi_less_imp:
  assumes "(2::real) powi a \<le> x" and "x < 2 powi b"
  shows "a < b"
proof (rule ccontr)
  assume "\<not> a < b"
  then have "b \<le> a" by simp
  then have "(2::real) powi b \<le> 2 powi a" by (intro power_int_increasing) simp_all
  with assms show False by simp
qed

lemma two_powi_diff: "(2::real) powi (a - b) = 2 powi a / 2 powi b"
  by (simp add: power_int_diff)

lemma two_powi_pos [simp]: "0 < (2::real) powi a"
  by simp


lemma binade_subnormal:
  assumes "x \<noteq> 0" and "\<bar>x\<bar> < 2 powi (- 1022)"
  shows "binade x = - 1022"
proof -
  from assms(1) have pos: "0 < \<bar>x\<bar>" by simp
  from floor_log2_bounds(1) [OF pos] assms(2) have "\<lfloor>log 2 \<bar>x\<bar>\<rfloor> < - 1022"
    by (rule two_powi_less_imp)
  then show ?thesis by (simp add: binade_def)
qed

lemma binade_ge: "- 1022 \<le> binade x"
  by (simp add: binade_def)

lemma binade_upper:
  assumes "x \<noteq> 0"
  shows "\<bar>x\<bar> < 2 powi (binade x + 1)"
proof -
  from assms have pos: "0 < \<bar>x\<bar>" by simp
  have "(2::real) powi (\<lfloor>log 2 \<bar>x\<bar>\<rfloor> + 1) \<le> 2 powi (binade x + 1)"
    by (intro power_int_increasing) (simp_all add: binade_def)
  with floor_log2_bounds(2) [OF pos] show ?thesis by simp
qed

lemma binade_lower:
  assumes "x \<noteq> 0" and "2 powi (- 1022) \<le> \<bar>x\<bar>"
  shows "2 powi binade x \<le> \<bar>x\<bar>"
proof -
  from assms(1) have pos: "0 < \<bar>x\<bar>" by simp
  from assms(2) floor_log2_bounds(2) [OF pos] have "- 1022 < \<lfloor>log 2 \<bar>x\<bar>\<rfloor> + 1"
    by (rule two_powi_less_imp)
  then have "binade x = \<lfloor>log 2 \<bar>x\<bar>\<rfloor>" by (simp add: binade_def)
  with floor_log2_bounds(1) [OF pos] show ?thesis by simp
qed

lemma binade_mono:
  assumes "x \<noteq> 0" and "\<bar>x\<bar> \<le> \<bar>y\<bar>"
  shows "binade x \<le> binade y"
proof -
  from assms have px: "0 < \<bar>x\<bar>" and py: "0 < \<bar>y\<bar>" by simp_all
  from floor_log2_bounds(1) [OF px] assms(2) have "2 powi \<lfloor>log 2 \<bar>x\<bar>\<rfloor> \<le> \<bar>y\<bar>" by simp
  from this floor_log2_bounds(2) [OF py] have "\<lfloor>log 2 \<bar>x\<bar>\<rfloor> < \<lfloor>log 2 \<bar>y\<bar>\<rfloor> + 1"
    by (rule two_powi_less_imp)
  then show ?thesis by (simp add: binade_def)
qed

text \<open>The scaled magnitude that is rounded, and its bounds.\<close>

lemma scaled_upper:
  assumes "x \<noteq> 0"
  shows "\<bar>x\<bar> / 2 powi (binade x - 52) < 2 ^ 53"
proof -
  have "\<bar>x\<bar> / 2 powi (binade x - 52) < 2 powi (binade x + 1) / 2 powi (binade x - 52)"
    using binade_upper [OF assms] by (simp add: divide_strict_right_mono)
  also have "\<dots> = 2 powi 53"
    using two_powi_diff [of "binade x + 1" "binade x - 52"] by simp
  finally show ?thesis by simp
qed

lemma scaled_lower:
  assumes "x \<noteq> 0" and "2 powi (- 1022) \<le> \<bar>x\<bar>"
  shows "2 ^ 52 \<le> \<bar>x\<bar> / 2 powi (binade x - 52)"
proof -
  have "2 powi binade x / 2 powi (binade x - 52) \<le> \<bar>x\<bar> / 2 powi (binade x - 52)"
    using binade_lower [OF assms] by (simp add: divide_right_mono)
  moreover have "2 powi binade x / 2 powi (binade x - 52) = (2::real) powi 52"
    using two_powi_diff [of "binade x" "binade x - 52"] by simp
  ultimately show ?thesis by simp
qed


lemma fl_minus: "fl (- x) = - fl x"
  by (simp add: fl_def Let_def binade_def)

lemma fl_nonneg:
  assumes "0 \<le> x"
  shows "0 \<le> fl x"
proof (cases "x = 0")
  case True
  then show ?thesis by (simp add: fl_def)
next
  case False
  with assms have "0 < x" by simp
  then have "0 \<le> \<bar>x\<bar> / 2 powi (binade x - 52)" by simp
  from rhe_nonneg [OF this] \<open>0 < x\<close> show ?thesis
    by (simp add: fl_def Let_def)
qed

lemma fl_pos_form:
  assumes "0 < x"
  shows "fl x = of_int (round_half_even (x / 2 powi (binade x - 52))) * 2 powi (binade x - 52)"
  using assms by (simp add: fl_def Let_def)


lemma binade_normal_lower:
  assumes "x \<noteq> 0" and "- 1022 < binade x"
  shows "2 powi binade x \<le> \<bar>x\<bar>"
proof -
  from assms(1) have pos: "0 < \<bar>x\<bar>" by simp
  from assms(2) have "binade x = \<lfloor>log 2 \<bar>x\<bar>\<rfloor>" by (simp add: binade_def max_def split: if_splits)
  with floor_log2_bounds(1) [OF pos] show ?thesis by simp
qed

lemma fl_upper_binade:
  assumes "0 < x"
  shows "fl x \<le> 2 powi (binade x + 1)"
proof -
  from assms have nz: "x \<noteq> 0" by simp
  have "x / 2 powi (binade x - 52) \<le> of_int (2 ^ 53)"
    using scaled_upper [OF nz] assms by simp
  then have "round_half_even (x / 2 powi (binade x - 52)) \<le> 2 ^ 53"
    by (rule rhe_le_int)
  then have "real_of_int (round_half_even (x / 2 powi (binade x - 52))) \<le> 2 ^ 53"
    by (metis of_int_le_iff of_int_numeral of_int_power)
  then have "fl x \<le> 2 ^ 53 * 2 powi (binade x - 52)"
    by (simp add: fl_pos_form [OF assms])
  also have "\<dots> = 2 powi (binade x + 1)"
    using power_int_add [of "2::real" 53 "binade x - 52"] by (simp add: add.commute)
  finally show ?thesis .
qed

lemma fl_lower_binade:
  assumes "0 < x" and "- 1022 < binade x"
  shows "2 powi binade x \<le> fl x"
proof -
  from assms have nz: "x \<noteq> 0" by simp
  from binade_normal_lower [OF nz assms(2)] assms(1) have lo: "2 powi binade x \<le> x" by simp
  have "2 powi binade x / 2 powi (binade x - 52) \<le> x / 2 powi (binade x - 52)"
    using lo by (simp add: divide_right_mono)
  moreover have "2 powi binade x / 2 powi (binade x - 52) = (2::real) powi 52"
    using two_powi_diff [of "binade x" "binade x - 52"] by simp
  ultimately have "of_int (2 ^ 52) \<le> x / 2 powi (binade x - 52)" by simp
  then have "2 ^ 52 \<le> round_half_even (x / 2 powi (binade x - 52))"
    by (rule rhe_ge_int)
  then have "(2::real) ^ 52 \<le> real_of_int (round_half_even (x / 2 powi (binade x - 52)))"
    by (metis of_int_le_iff of_int_numeral of_int_power)
  then have "2 ^ 52 * 2 powi (binade x - 52) \<le> fl x"
    by (simp add: fl_pos_form [OF assms(1)])
  moreover have "2 ^ 52 * 2 powi (binade x - 52) = (2::real) powi binade x"
    using power_int_add [of "2::real" 52 "binade x - 52"] by simp
  ultimately show ?thesis by simp
qed

lemma fl_mono_pos:
  assumes "0 < x" and "x \<le> y"
  shows "fl x \<le> fl y"
proof -
  from assms have py: "0 < y" and nz: "x \<noteq> 0" by simp_all
  from assms have "\<bar>x\<bar> \<le> \<bar>y\<bar>" by simp
  from binade_mono [OF nz this] have b: "binade x \<le> binade y" .
  show ?thesis
  proof (cases "binade x = binade y")
    case True
    have "x / 2 powi (binade y - 52) \<le> y / 2 powi (binade y - 52)"
      using assms(2) by (simp add: divide_right_mono)
    from rhe_mono [OF this] show ?thesis
      by (simp add: fl_pos_form [OF assms(1)] fl_pos_form [OF py] True)
  next
    case False
    with b have lt: "binade x < binade y" by simp
    with binade_ge [of x] have "- 1022 < binade y" by simp
    from fl_lower_binade [OF py this] have "2 powi binade y \<le> fl y" .
    moreover from lt have "(2::real) powi (binade x + 1) \<le> 2 powi binade y"
      by (intro power_int_increasing) simp_all
    moreover note fl_upper_binade [OF assms(1)]
    ultimately show ?thesis by simp
  qed
qed

lemma fl_zero [simp]: "fl 0 = 0"
  by (simp add: fl_def)

lemma fl_mono:
  assumes "x \<le> y"
  shows "fl x \<le> fl y"
proof -
  consider "0 < x" | "x \<le> 0" "0 \<le> y" | "y < 0" by linarith
  then show ?thesis
  proof cases
    case 1
    from 1 assms show ?thesis by (rule fl_mono_pos)
  next
    case 2
    from 2(1) have "0 \<le> - x" by simp
    from fl_nonneg [OF this] have "fl x \<le> 0" by (simp add: fl_minus)
    with fl_nonneg [OF 2(2)] show ?thesis by simp
  next
    case 3
    with assms have "0 < - y" "- y \<le> - x" by simp_all
    from fl_mono_pos [OF this] show ?thesis by (simp add: fl_minus)
  qed
qed

lemma fl_exact:
  assumes "x = of_int m * 2 powi k" and "\<bar>m\<bar> < 2 ^ 53" and "- 1074 \<le> k"
  shows "fl x = x"
proof (cases "m = 0")
  case True
  with assms(1) show ?thesis by simp
next
  case False
  with assms(1) have nz: "x \<noteq> 0" by simp
  then have pos: "0 < \<bar>x\<bar>" by simp
  have ax: "\<bar>x\<bar> = of_int \<bar>m\<bar> * 2 powi k"
    by (simp add: assms(1) abs_mult)
  have "real_of_int \<bar>m\<bar> < 2 ^ 53"
    using assms(2) by (metis of_int_less_iff of_int_numeral of_int_power)
  then have "\<bar>x\<bar> < 2 ^ 53 * 2 powi k"
    by (simp add: ax)
  also have "\<dots> = 2 powi (k + 53)"
    using power_int_add [of "2::real" 53 k] by (simp add: add.commute)
  finally have up: "\<bar>x\<bar> < 2 powi (k + 53)" .
  from floor_log2_bounds(1) [OF pos] up have "\<lfloor>log 2 \<bar>x\<bar>\<rfloor> < k + 53"
    by (rule two_powi_less_imp)
  with assms(3) have b: "binade x - 52 \<le> k" by (simp add: binade_def)
  define d where "d = nat (k - (binade x - 52))"
  from b have k: "k = int d + (binade x - 52)" by (simp add: d_def)
  have pk: "(2::real) powi k = 2 ^ d * 2 powi (binade x - 52)"
    using power_int_add [of "2::real" "int d" "binade x - 52"] by (simp add: k [symmetric])
  have q: "\<bar>x\<bar> / 2 powi (binade x - 52) = of_int (\<bar>m\<bar> * 2 ^ d)"
    by (simp add: ax pk)
  have "fl x = sgn x * of_int (\<bar>m\<bar> * 2 ^ d) * 2 powi (binade x - 52)"
    using nz by (simp add: fl_def Let_def q del: of_int_mult of_int_power)
  also have "\<dots> = sgn x * (of_int \<bar>m\<bar> * 2 powi k)"
    by (simp add: pk)
  also have "\<dots> = sgn x * \<bar>x\<bar>"
    by (simp add: ax)
  also have "\<dots> = x"
    by (simp add: sgn_mult_abs)
  finally show ?thesis .
qed

lemma fl_idem_pos:
  assumes "0 < x"
  shows "fl (fl x) = fl x"
proof -
  from assms have nz: "x \<noteq> 0" by simp
  define n where "n = round_half_even (x / 2 powi (binade x - 52))"
  have form: "fl x = of_int n * 2 powi (binade x - 52)"
    by (simp add: fl_pos_form [OF assms] n_def)
  have "0 \<le> x / 2 powi (binade x - 52)" using assms by simp
  from rhe_nonneg [OF this] have n0: "0 \<le> n" by (simp add: n_def)
  have "x / 2 powi (binade x - 52) \<le> of_int (2 ^ 53)"
    using scaled_upper [OF nz] assms by simp
  then have n1: "n \<le> 2 ^ 53" unfolding n_def by (rule rhe_le_int)
  show ?thesis
  proof (cases "n = 2 ^ 53")
    case True
    have "fl x = of_int (2 ^ 52) * 2 powi (binade x - 51)"
      using power_int_add [of "2::real" 1 "binade x - 52"] by (simp add: form True)
    moreover have "- 1074 \<le> binade x - 51" using binade_ge [of x] by simp
    ultimately show ?thesis by (intro fl_exact [where m = "2 ^ 52" and k = "binade x - 51"]) simp_all
  next
    case False
    with n0 n1 have "\<bar>n\<bar> < 2 ^ 53" by simp
    moreover have "- 1074 \<le> binade x - 52" using binade_ge [of x] by simp
    ultimately show ?thesis using form by (intro fl_exact [where m = n and k = "binade x - 52"])
  qed
qed

lemma fl_idem [simp]: "fl (fl x) = fl x"
proof -
  consider "0 < x" | "x = 0" | "0 < - x" by linarith
  then show ?thesis
  proof cases
    case 1
    then show ?thesis by (rule fl_idem_pos)
  next
    case 2
    then show ?thesis by simp
  next
    case 3
    from fl_idem_pos [OF this] show ?thesis by (simp add: fl_minus)
  qed
qed



lemma fl_one [simp]: "fl 1 = 1"
  by (rule fl_exact [where m = 1 and k = 0]) simp_all







section \<open>Properties of the loot roll\<close>

lemma repBonus_zero:
  assumes "brotherhood (factionRep p) = 0"
  shows "repBonus p = 0"
proof -
  have "(0::real) \<le> fl 0.2" by (rule fl_nonneg) simp
  with assms show ?thesis by (simp add: repBonus_def)
qed



lemma remainder_Cons_Suc:
  "remainder r (a # es) (Suc k) = remainder (fl (r - weight a)) es k"
  by (simp add: remainder_def)

lemma remainder_0 [simp]: "remainder r es 0 = r"
  by (simp add: remainder_def)

lemma pick_None_iff:
  "pick r es = None \<longleftrightarrow> (\<forall>k<length es. 0 < remainder r es (Suc k))"
proof (induction es arbitrary: r)
  case Nil
  then show ?case by simp
next
  case (Cons a es)
  show ?case
    by (simp add: Let_def Cons.IH All_less_Suc2 remainder_Cons_Suc not_le)
qed


lemma total_weight_double_aux:
  "fl a = a \<Longrightarrow>
   fl (foldl (\<lambda>sum e. fl (sum + weight e)) a es) = foldl (\<lambda>sum e. fl (sum + weight e)) a es"
  by (induction es arbitrary: a) simp_all

lemma total_weight_double: "fl (total_weight es) = total_weight es"
  unfolding total_weight_def by (rule total_weight_double_aux) simp

lemma rollLoot_pick:
  "rollLoot tbl p rnd =
     pick (fl (rnd * total_weight (map (adjust (repBonus p)) tbl)))
       (map (adjust (repBonus p)) tbl)"
  by (simp add: rollLoot_def total_weight_def Let_def)

lemma draw_within_total:
  assumes "0 \<le> rnd" and "rnd < 1" and "0 \<le> total_weight es"
  shows "0 \<le> fl (rnd * total_weight es)" and "fl (rnd * total_weight es) \<le> total_weight es"
proof -
  from assms(1,3) have "0 \<le> rnd * total_weight es" by simp
  then show "0 \<le> fl (rnd * total_weight es)" by (rule fl_nonneg)
  from assms have "rnd * total_weight es \<le> 1 * total_weight es"
    by (intro mult_right_mono) simp_all
  then have "rnd * total_weight es \<le> total_weight es" by simp
  from fl_mono [OF this] show "fl (rnd * total_weight es) \<le> total_weight es"
    by (simp add: total_weight_double)
qed



lemma total_weight_nonneg:
  assumes "\<forall>e\<in>set es. 0 \<le> weight e"
  shows "0 \<le> total_weight es"
proof -
  have "0 \<le> a \<Longrightarrow> \<forall>e\<in>set es. 0 \<le> weight e \<Longrightarrow>
          0 \<le> foldl (\<lambda>sum e. fl (sum + weight e)) a es" for a
    by (induction es arbitrary: a) (simp_all add: fl_nonneg)
  from this [of 0] assms show ?thesis by (simp add: total_weight_def)
qed

lemma remainder_mono:
  "r \<le> r' \<Longrightarrow> remainder r es k \<le> remainder r' es k"
proof (induction es arbitrary: r r' k)
  case Nil
  then show ?case by (simp add: remainder_def)
next
  case (Cons a es)
  show ?case
  proof (cases k)
    case 0
    with Cons.prems show ?thesis by simp
  next
    case (Suc j)
    from Cons.prems have "fl (r - weight a) \<le> fl (r' - weight a)"
      by (intro fl_mono) simp
    then show ?thesis
      unfolding Suc remainder_Cons_Suc by (rule Cons.IH)
  qed
qed

lemma pick_returns_below_total:
  assumes "es \<noteq> []" and "r \<le> t" and "remainder t es (length es) \<le> 0"
  shows "pick r es \<noteq> None"
proof
  assume "pick r es = None"
  then have all: "\<forall>k<length es. 0 < remainder r es (Suc k)"
    by (simp only: pick_None_iff)
  from assms(1) obtain n where n: "length es = Suc n"
    by (cases es) simp_all
  with all have "0 < remainder r es (length es)" by simp
  also from assms(2) have "\<dots> \<le> remainder t es (length es)" by (rule remainder_mono)
  finally show False using assms(3) by simp
qed

text \<open>
  At zero reputation the two configured tables have whole-number weights, every sum
  and difference of the walk is exact, and no draw falls through.
\<close>

lemma configured_tables_always_yield:
  assumes "0 \<le> rnd" and "rnd < 1"
  shows "rollLoot (lootTable (nukaTown cfg)) (new_player w) rnd \<noteq> None"
    and "rollLoot (lootTable vault13) (new_player w) rnd \<noteq> None"
proof -
  have dbl: "fl 50 = 50" "fl 30 = 30" "fl 15 = 15" "fl 5 = 5" "fl 80 = 80" "fl 95 = 95"
      "fl 100 = 100" "fl 20 = 20" "fl 40 = 40" "fl 25 = 25" "fl 65 = 65" "fl 85 = 85"
      "fl 60 = 60" "fl 35 = 35"
    by (rule fl_exact [where k = 0], simp, simp, simp)+
  have rb: "repBonus (new_player w) = 0"
    by (rule repBonus_zero) (simp add: new_player_def)
  have n1: "map (adjust (repBonus (new_player w))) (lootTable (nukaTown cfg))
              = lootTable (nukaTown cfg)"
    by (simp add: rb nukaTown_def adjust_def dbl)
  have v1: "map (adjust (repBonus (new_player w))) (lootTable vault13) = lootTable vault13"
    by (simp add: rb vault13_def adjust_def dbl)
  have n2: "total_weight (lootTable (nukaTown cfg)) = 100"
    by (simp add: total_weight_def nukaTown_def dbl)
  have v2: "total_weight (lootTable vault13) = 100"
    by (simp add: total_weight_def vault13_def dbl)
  have n3: "remainder 100 (lootTable (nukaTown cfg)) (length (lootTable (nukaTown cfg))) \<le> 0"
    by (simp add: remainder_def nukaTown_def dbl)
  have v3: "remainder 100 (lootTable vault13) (length (lootTable vault13)) \<le> 0"
    by (simp add: remainder_def vault13_def dbl)
  have n4: "lootTable (nukaTown cfg) \<noteq> []" by (simp add: nukaTown_def)
  have v4: "lootTable vault13 \<noteq> []" by (simp add: vault13_def)
  from assms have n5: "fl (rnd * total_weight (lootTable (nukaTown cfg))) \<le> 100"
    using draw_within_total(2) [of rnd "lootTable (nukaTown cfg)"] by (simp add: n2)
  from assms have v5: "fl (rnd * total_weight (lootTable vault13)) \<le> 100"
    using draw_within_total(2) [of rnd "lootTable vault13"] by (simp add: v2)
  from n4 n5 n3 show "rollLoot (lootTable (nukaTown cfg)) (new_player w) rnd \<noteq> None"
    unfolding rollLoot_pick n1 by (rule pick_returns_below_total)
  from v4 v5 v3 show "rollLoot (lootTable vault13) (new_player w) rnd \<noteq> None"
    unfolding rollLoot_pick v1 by (rule pick_returns_below_total)
qed


lemma dbl_weight_2: "fl (8106479329266893 / 9007199254740992) = 8106479329266893 / 9007199254740992"
  by (rule fl_exact [where m = 8106479329266893 and k = "- 53"]) simp_all

lemma dbl_weight_3: "fl (5854679515581645 / 4503599627370496) = 5854679515581645 / 4503599627370496"
  by (rule fl_exact [where m = 5854679515581645 and k = "- 52"]) simp_all











end
